theory Spec2Isabelle
  imports Main "HOL-Library.Sublist"
begin

section \<open>Python values used by the examples\<close>

text \<open>
  A Python \<open>str\<close> is a sequence of Unicode code points; slicing and \<open>in\<close> count code
  points. It is modelled as a list of code points, so that the one non-ASCII literal of
  the worker agents (U+1F4DD) is a single element, as in Python. \<open>str\<close> turns an ASCII
  literal of the source into such a list.
\<close>

type_synonym pstr = "nat list"

definition str :: "string \<Rightarrow> pstr" where
  "str cs = map of_char cs"

text \<open>The newline character of the source's triple-quoted literals.\<close>

definition nl :: pstr where
  "nl = [10]"

text \<open>
  The exceptions the modelled code can raise. \<open>KeyError k\<close> is a subscript \<open>d[k]\<close> on a
  dictionary that has no key \<open>k\<close>.
\<close>

datatype error =
    KeyError string
  | TypeError
  | AttributeError
  | UnboundLocalError
  | ZeroDivisionError
  | GraphRecursionError
  | ValueError
  | InvalidNode pstr

text \<open>\<open>d[k]\<close>: the value under the key, or KeyError.\<close>

definition subscript :: "'a option \<Rightarrow> string \<Rightarrow> error + 'a" where
  "subscript v k = (case v of None \<Rightarrow> Inl (KeyError k) | Some x \<Rightarrow> Inr x)"

text \<open>
  Truth value of \<open>d.get(k)\<close> for a string-valued key: a missing key gives \<open>None\<close>, which is
  false, and so is the empty string.
\<close>

definition truthy :: "pstr option \<Rightarrow> bool" where
  "truthy v = (case v of None \<Rightarrow> False | Some s \<Rightarrow> s \<noteq> [])"

section \<open>examples/multi-agent/hierarchical.py\<close>

subsection \<open>The shared state\<close>

text \<open>
  \<open>AgentState\<close> is a TypedDict, a plain dictionary at run time: a key can be missing.
  Each key is an optional field; \<open>None\<close> is the missing key. A message is modelled by its
  content.
\<close>

record agent_state =
  messages :: "pstr list option"
  task :: "pstr option"
  research_results :: "pstr option"
  analysis_results :: "pstr option"
  writing_results :: "pstr option"
  final_output :: "pstr option"
  next_agent :: "pstr option"

subsection \<open>The simulated tools\<close>

text \<open>
  \<open>str.lower\<close> is Python's Unicode lower-casing; it is a parameter \<open>lower\<close> of every
  function that calls it.
\<close>

definition knowledge_base :: "(pstr \<times> pstr) list" where
  "knowledge_base =
    [(str ''artificial intelligence'',
      str ''AI is transforming industries with machine learning, NLP, and computer vision.''),
     (str ''climate change'',
      str ''Climate change involves rising global temperatures and environmental impacts.''),
     (str ''quantum computing'',
      str ''Quantum computers use qubits to solve complex problems faster than classical computers.''),
     (str ''blockchain'',
      str ''Blockchain is a distributed ledger technology enabling secure, transparent transactions.'')]"

text \<open>The loop over the dictionary returns at the first key, in insertion order, found in the lower-cased query.\<close>

definition web_search :: "(pstr \<Rightarrow> pstr) \<Rightarrow> pstr \<Rightarrow> pstr" where
  "web_search lower query =
    (case find (\<lambda>(key, finding). sublist key (lower query)) knowledge_base of
       Some (key, finding) \<Rightarrow> str ''Research finding: '' @ finding
     | None \<Rightarrow> str ''Research finding: General information about '' @ query)"

definition analyze_data :: "pstr \<Rightarrow> pstr" where
  "analyze_data data =
    str ''Analysis: The data shows important patterns and trends. Key insight: ''
      @ take 100 data @ str ''...''"

definition positive_words :: "pstr list" where
  "positive_words = [str ''good'', str ''great'', str ''excellent'', str ''positive'', str ''beneficial'']"

definition sentiment_analysis :: "(pstr \<Rightarrow> pstr) \<Rightarrow> pstr \<Rightarrow> pstr" where
  "sentiment_analysis lower text =
    (if list_ex (\<lambda>word. sublist word (lower text)) positive_words
     then str ''Sentiment: Positive - The content has optimistic and constructive themes''
     else str ''Sentiment: Neutral - The content presents factual information'')"

definition generate_summary :: "pstr \<Rightarrow> pstr" where
  "generate_summary content = str ''Summary: '' @ take 150 content @ str ''... [Content summarized]''"

subsection \<open>The worker agents\<close>

text \<open>
  The three module-level agent objects, each with the one method the nodes call. The nodes
  reach them through the module's globals, so a test can replace them: the nodes below
  take them as the parameter \<open>w\<close> (\<open>write\<close> is a keyword of Isabelle, so
  the field is \<open>write'\<close>). The agents' language models are built and never
  called; what the methods print is not modelled.
\<close>

record agents =
  research :: "pstr \<Rightarrow> pstr"
  analyze :: "pstr \<Rightarrow> pstr"
  write' :: "pstr \<Rightarrow> pstr"

definition ResearchAgent_research :: "(pstr \<Rightarrow> pstr) \<Rightarrow> pstr \<Rightarrow> pstr" where
  "ResearchAgent_research lower topic =
    str ''Research completed on '' @ [39] @ topic @ [39] @ str '': '' @ web_search lower topic"

definition AnalysisAgent_analyze :: "(pstr \<Rightarrow> pstr) \<Rightarrow> pstr \<Rightarrow> pstr" where
  "AnalysisAgent_analyze lower data =
    str ''Analysis complete: '' @ analyze_data data @ nl @ sentiment_analysis lower data"

definition WritingAgent_write :: "pstr \<Rightarrow> pstr" where
  "WritingAgent_write content =
    nl @ [128221] @ str '' Written Report:'' @ nl @ nl
      @ generate_summary content @ nl @ nl
      @ str ''This report synthesizes the research and analysis findings into a coherent narrative.'' @ nl
      @ str ''The content has been structured for clarity and impact.'' @ nl"

definition module_agents :: "(pstr \<Rightarrow> pstr) \<Rightarrow> agents" where
  "module_agents lower =
    \<lparr>research = ResearchAgent_research lower,
     analyze = AnalysisAgent_analyze lower,
     write' = WritingAgent_write\<rparr>"

subsection \<open>The nodes\<close>

definition manager_node :: "agent_state \<Rightarrow> error + agent_state" where
  "manager_node state =
    (case subscript (task state) ''task'' of Inl e \<Rightarrow> Inl e | Inr task_v \<Rightarrow>
    (case subscript (messages state) ''messages'' of Inl e \<Rightarrow> Inl e | Inr messages_v \<Rightarrow>
       if \<not> truthy (research_results state) then
         Inr (state\<lparr>next_agent := Some (str ''research'')\<rparr>)
       else if \<not> truthy (analysis_results state) then
         Inr (state\<lparr>next_agent := Some (str ''analysis'')\<rparr>)
       else if \<not> truthy (writing_results state) then
         Inr (state\<lparr>next_agent := Some (str ''writing'')\<rparr>)
       else
         Inr (state\<lparr>next_agent := Some (str ''finalize'')\<rparr>)))"

definition research_node :: "agents \<Rightarrow> agent_state \<Rightarrow> error + agent_state" where
  "research_node w state =
    (case subscript (task state) ''task'' of Inl e \<Rightarrow> Inl e | Inr task_v \<Rightarrow>
       Inr (state\<lparr>research_results := Some (research w task_v),
                  next_agent := Some (str ''manager'')\<rparr>))"

definition analysis_node :: "agents \<Rightarrow> agent_state \<Rightarrow> error + agent_state" where
  "analysis_node w state =
    (case subscript (research_results state) ''research_results'' of Inl e \<Rightarrow> Inl e
     | Inr research_v \<Rightarrow>
       Inr (state\<lparr>analysis_results := Some (analyze w research_v),
                  next_agent := Some (str ''manager'')\<rparr>))"

definition writing_node :: "agents \<Rightarrow> agent_state \<Rightarrow> error + agent_state" where
  "writing_node w state =
    (case subscript (research_results state) ''research_results'' of Inl e \<Rightarrow> Inl e
     | Inr research_v \<Rightarrow>
    (case subscript (analysis_results state) ''analysis_results'' of Inl e \<Rightarrow> Inl e
     | Inr analysis_v \<Rightarrow>
       Inr (state\<lparr>writing_results := Some (write' w (research_v @ nl @ nl @ analysis_v)),
                  next_agent := Some (str ''manager'')\<rparr>)))"

text \<open>The rule of seventy \<open>=\<close> signs that frames the report.\<close>

definition rule70 :: pstr where
  "rule70 = replicate 70 61"

definition finalize_node :: "agent_state \<Rightarrow> error + agent_state" where
  "finalize_node state =
    (case subscript (task state) ''task'' of Inl e \<Rightarrow> Inl e | Inr task_v \<Rightarrow>
    (case subscript (research_results state) ''research_results'' of Inl e \<Rightarrow> Inl e
     | Inr research_v \<Rightarrow>
    (case subscript (analysis_results state) ''analysis_results'' of Inl e \<Rightarrow> Inl e
     | Inr analysis_v \<Rightarrow>
    (case subscript (writing_results state) ''writing_results'' of Inl e \<Rightarrow> Inl e
     | Inr writing_v \<Rightarrow>
       Inr (state\<lparr>final_output := Some
               (nl @ rule70 @ nl @ str ''FINAL REPORT'' @ nl @ rule70 @ nl @ nl
                  @ str ''Task: '' @ task_v @ nl @ nl
                  @ research_v @ nl @ nl
                  @ analysis_v @ nl @ nl
                  @ writing_v @ nl @ nl
                  @ rule70 @ nl @ str ''Report complete.'' @ nl @ rule70 @ nl),
             next_agent := Some (str ''end'')\<rparr>)))))"

subsection \<open>Routing\<close>

text \<open>\<open>END\<close> is the graph library's name of the terminal node, the string \<open>__end__\<close>.\<close>

definition END :: pstr where
  "END = str ''__end__''"

definition routing :: "(pstr \<times> pstr) list" where
  "routing =
    [(str ''manager'', str ''manager''),
     (str ''research'', str ''research''),
     (str ''analysis'', str ''analysis''),
     (str ''writing'', str ''writing''),
     (str ''finalize'', str ''finalize''),
     (str ''end'', END)]"

definition route_agent :: "agent_state \<Rightarrow> pstr" where
  "route_agent state =
    (let next_agent_v = (case next_agent state of None \<Rightarrow> str ''manager'' | Some v \<Rightarrow> v)
     in case map_of routing next_agent_v of None \<Rightarrow> END | Some target \<Rightarrow> target)"

subsection \<open>The compiled graph\<close>

text \<open>
  \<open>create_hierarchical_workflow\<close> declares five nodes, the entry point \<open>manager\<close>, a
  conditional edge out of \<open>manager\<close> (the label \<open>route_agent\<close> returns is looked up in
  the edge's table) and plain edges out of the other four. The graph library that runs the
  compiled graph is not part of the repository; its run is modelled as the interpreter of
  these declarations: run the current node on the state, store what the node returns,
  follow the node's edge, stop at \<open>END\<close>.
\<close>

definition nodes :: "agents \<Rightarrow> (pstr \<times> (agent_state \<Rightarrow> error + agent_state)) list" where
  "nodes w =
    [(str ''manager'', manager_node),
     (str ''research'', research_node w),
     (str ''analysis'', analysis_node w),
     (str ''writing'', writing_node w),
     (str ''finalize'', finalize_node)]"

definition entry_point :: pstr where
  "entry_point = str ''manager''"

definition conditional_edges :: "(pstr \<times> pstr) list" where
  "conditional_edges =
    [(str ''manager'', str ''manager''),
     (str ''research'', str ''research''),
     (str ''analysis'', str ''analysis''),
     (str ''writing'', str ''writing''),
     (str ''finalize'', str ''finalize''),
     (END, END)]"

definition edges :: "(pstr \<times> pstr) list" where
  "edges =
    [(str ''research'', str ''manager''),
     (str ''analysis'', str ''manager''),
     (str ''writing'', str ''manager''),
     (str ''finalize'', END)]"

text \<open>The node that runs after \<open>node\<close>, given the state the node left.\<close>

definition next_node :: "pstr \<Rightarrow> agent_state \<Rightarrow> error + pstr" where
  "next_node node state =
    (if node = str ''manager'' then
       (case map_of conditional_edges (route_agent state) of
          None \<Rightarrow> Inl (InvalidNode (route_agent state))
        | Some target \<Rightarrow> Inr target)
     else
       (case map_of edges node of
          None \<Rightarrow> Inl (InvalidNode node)
        | Some target \<Rightarrow> Inr target))"

text \<open>
  Storing a node's return value: a key the node returns replaces the stored value, except
  \<open>messages\<close>, which \<open>AgentState\<close> annotates with \<open>operator.add\<close>: the returned
  sequence is appended to the stored one. A key the node does not return keeps its value.
\<close>

definition last_value :: "'a option \<Rightarrow> 'a option \<Rightarrow> 'a option" where
  "last_value stored returned = (case returned of None \<Rightarrow> stored | Some v \<Rightarrow> Some v)"

definition store_update :: "agent_state \<Rightarrow> agent_state \<Rightarrow> agent_state" where
  "store_update stored returned =
    \<lparr>messages =
       (case messages returned of
          None \<Rightarrow> messages stored
        | Some new \<Rightarrow> Some ((case messages stored of None \<Rightarrow> [] | Some old \<Rightarrow> old) @ new)),
     task = last_value (task stored) (task returned),
     research_results = last_value (research_results stored) (research_results returned),
     analysis_results = last_value (analysis_results stored) (analysis_results returned),
     writing_results = last_value (writing_results stored) (writing_results returned),
     final_output = last_value (final_output stored) (final_output returned),
     next_agent = last_value (next_agent stored) (next_agent returned)\<rparr>"

text \<open>
  The run from \<open>node\<close> on. The second argument is the number of node executions the
  run may still make; a run that needs more raises GraphRecursionError. The result is the
  history of the run: each node executed, in order, with the state stored after it.
\<close>

fun run_graph :: "agents \<Rightarrow> nat \<Rightarrow> pstr \<Rightarrow> agent_state \<Rightarrow> error + (pstr \<times> agent_state) list" where
  "run_graph w 0 node state = (if node = END then Inr [] else Inl GraphRecursionError)"
| "run_graph w (Suc steps) node state =
    (if node = END then Inr []
     else case map_of (nodes w) node of
       None \<Rightarrow> Inl (InvalidNode node)
     | Some node_fn \<Rightarrow>
         (case node_fn state of
            Inl e \<Rightarrow> Inl e
          | Inr returned \<Rightarrow>
              (let state' = store_update state returned in
               case next_node node state' of
                 Inl e \<Rightarrow> Inl e
               | Inr target \<Rightarrow>
                   (case run_graph w steps target state' of
                      Inl e \<Rightarrow> Inl e
                    | Inr history \<Rightarrow> Inr ((node, state') # history)))))"

text \<open>
  A run begins with a hidden step that stores the input. The stored \<open>messages\<close> start as
  the empty sequence, to which the input's messages are appended, so the key is present
  even when the input has none; every other key is stored as the input gives it.
\<close>

definition empty_channels :: agent_state where
  "empty_channels =
    \<lparr>messages = Some [], task = None, research_results = None, analysis_results = None,
     writing_results = None, final_output = None, next_agent = None\<rparr>"

definition start :: "agent_state \<Rightarrow> agent_state" where
  "start input = store_update empty_channels input"

text \<open>
  The run that \<open>app.invoke(state)\<close> performs under a recursion limit (25 unless the caller
  sets another): a limit of zero is refused with ValueError; the hidden first step counts
  against the limit, so the nodes may execute one time less than the limit says.
  \<open>invoke_history\<close> is the history of the run, \<open>invoke\<close> the state at its end.
\<close>

definition default_recursion_limit :: nat where
  "default_recursion_limit = 25"

definition invoke_history ::
  "agents \<Rightarrow> nat \<Rightarrow> agent_state \<Rightarrow> error + (pstr \<times> agent_state) list" where
  "invoke_history w recursion_limit input =
    (if recursion_limit = 0 then Inl ValueError
     else run_graph w (recursion_limit - 1) entry_point (start input))"

definition invoke :: "agents \<Rightarrow> nat \<Rightarrow> agent_state \<Rightarrow> error + agent_state" where
  "invoke w recursion_limit input =
    (case invoke_history w recursion_limit input of
       Inl e \<Rightarrow> Inl e
     | Inr history \<Rightarrow> Inr (last (start input # map snd history)))"

text \<open>The state \<open>main\<close> builds for a task before it invokes the graph.\<close>

definition initial_state :: "pstr \<Rightarrow> agent_state" where
  "initial_state task_v =
    \<lparr>messages = Some [task_v],
     task = Some task_v,
     research_results = Some [],
     analysis_results = Some [],
     writing_results = Some [],
     final_output = Some [],
     next_agent = Some (str ''manager'')\<rparr>"

section \<open>examples/planning/plan_and_execute.py\<close>

subsection \<open>Steps, results and the agent\<close>

text \<open>
  A step of a plan and the result of a step are dictionaries with string keys, kept as
  association lists in insertion order; \<open>map_of\<close> looks a key up. The values are the
  ones the planning prompt asks for: an integer or a string.
\<close>

datatype pyval = PInt int | PStr pstr

type_synonym pydict = "(pstr \<times> pyval) list"

text \<open>The decimal digits of a natural number, and \<open>str(n)\<close> of an integer.\<close>

fun digits :: "nat \<Rightarrow> pstr" where
  "digits n = (if n < 10 then [48 + n] else digits (n div 10) @ [48 + n mod 10])"

definition str_of_int :: "int \<Rightarrow> pstr" where
  "str_of_int i = (if i < 0 then [45] @ digits (nat (- i)) else digits (nat i))"

text \<open>How an f-string renders a value.\<close>

fun format_val :: "pyval \<Rightarrow> pstr" where
  "format_val (PInt i) = str_of_int i"
| "format_val (PStr s) = s"

text \<open>
  The agent object: the language model it was built with, the current plan and the
  execution log. The language model is outside the repository: it is a state \<open>'l\<close> and a
  parameter \<open>llm_invoke\<close>, which maps the state and a prompt to the content of the response
  and the next state.
\<close>

record 'l plan_agent =
  llm :: 'l
  current_plan :: "pydict list"
  execution_log :: "pydict list"

text \<open>The double quote, which an Isabelle string literal cannot hold.\<close>

definition dq :: pstr where
  "dq = [34]"

subsection \<open>Planning\<close>

definition planning_prompt :: "pstr \<Rightarrow> pstr" where
  "planning_prompt task_v =
    str ''Create a detailed step-by-step plan to accomplish this task:'' @ nl @ nl
    @ str ''Task: '' @ task_v @ nl @ nl
    @ str ''Requirements:'' @ nl
    @ str ''1. Break down the task into clear, actionable steps'' @ nl
    @ str ''2. Each step should be specific and measurable'' @ nl
    @ str ''3. Steps should be in logical order'' @ nl
    @ str ''4. Include validation/checking steps'' @ nl @ nl
    @ str ''Return the plan as a JSON list where each step has:'' @ nl
    @ str ''- step_number: int'' @ nl
    @ str ''- description: string'' @ nl
    @ str ''- estimated_complexity: '' @ dq @ str ''low'' @ dq @ str '', '' @ dq @ str ''medium'' @ dq
    @ str '', or '' @ dq @ str ''high'' @ dq @ nl @ nl
    @ str ''Example format:'' @ nl
    @ str ''['' @ nl
    @ str ''  {'' @ dq @ str ''step_number'' @ dq @ str '': 1, '' @ dq @ str ''description'' @ dq
    @ str '': '' @ dq @ str ''Research topic X'' @ dq @ str '', '' @ dq @ str ''estimated_complexity'' @ dq
    @ str '': '' @ dq @ str ''medium'' @ dq @ str ''},'' @ nl
    @ str ''  {'' @ dq @ str ''step_number'' @ dq @ str '': 2, '' @ dq @ str ''description'' @ dq
    @ str '': '' @ dq @ str ''Analyze findings'' @ dq @ str '', '' @ dq @ str ''estimated_complexity'' @ dq
    @ str '': '' @ dq @ str ''low'' @ dq @ str ''}'' @ nl
    @ str '']'' @ nl @ nl
    @ str ''Plan:''"

definition create_fallback_plan :: "pstr \<Rightarrow> pydict list" where
  "create_fallback_plan task_v =
    [[(str ''step_number'', PInt 1),
      (str ''description'', PStr (str ''Understand: '' @ task_v)),
      (str ''estimated_complexity'', PStr (str ''low''))],
     [(str ''step_number'', PInt 2),
      (str ''description'', PStr (str ''Gather required information'')),
      (str ''estimated_complexity'', PStr (str ''medium''))],
     [(str ''step_number'', PInt 3),
      (str ''description'', PStr (str ''Execute main task'')),
      (str ''estimated_complexity'', PStr (str ''high''))],
     [(str ''step_number'', PInt 4),
      (str ''description'', PStr (str ''Verify results'')),
      (str ''estimated_complexity'', PStr (str ''low''))]]"

text \<open>\<open>s.find(c)\<close> and \<open>s.rfind(c)\<close> for a one-character \<open>c\<close>: the first and the last index of \<open>c\<close>, or \<open>-1\<close>.\<close>

fun py_find :: "nat \<Rightarrow> pstr \<Rightarrow> int" where
  "py_find c [] = - 1"
| "py_find c (x # xs) =
    (if x = c then 0 else (let r = py_find c xs in if r = - 1 then - 1 else r + 1))"

definition py_rfind :: "nat \<Rightarrow> pstr \<Rightarrow> int" where
  "py_rfind c s = (let r = py_find c (rev s) in if r = - 1 then - 1 else int (length s) - 1 - r)"

text \<open>
  \<open>json.loads\<close> is the parameter \<open>json_loads\<close>; \<open>None\<close> is any exception it raises, all
  of which \<open>create_plan\<close> catches. What it returns is taken to be a list of steps as
  described above. The slice \<open>content[start:end]\<close> is taken only where
  \<open>0 \<le> start < end\<close>. The fallback plan is returned without being stored in
  \<open>current_plan\<close>.
\<close>

definition create_plan ::
  "('l \<Rightarrow> pstr \<Rightarrow> pstr \<times> 'l) \<Rightarrow> (pstr \<Rightarrow> pydict list option) \<Rightarrow> 'l plan_agent \<Rightarrow> pstr
    \<Rightarrow> pydict list \<times> 'l plan_agent" where
  "create_plan llm_invoke json_loads self task_v =
    (let (content, llm') = llm_invoke (llm self) (planning_prompt task_v);
         self1 = self\<lparr>llm := llm'\<rparr>;
         start = py_find 91 content;
         end' = py_rfind 93 content + 1
     in if start \<noteq> - 1 \<and> end' > start then
          (case json_loads (drop (nat start) (take (nat end') content)) of
             Some plan \<Rightarrow> (plan, self1\<lparr>current_plan := plan\<rparr>)
           | None \<Rightarrow> (create_fallback_plan task_v, self1))
        else (create_fallback_plan task_v, self1))"

subsection \<open>Executing a step\<close>

definition execution_prompt :: "pyval \<Rightarrow> pyval \<Rightarrow> pstr \<Rightarrow> pstr" where
  "execution_prompt description complexity context =
    str ''Execute this step:'' @ nl @ nl
    @ str ''Step: '' @ format_val description @ nl
    @ str ''Complexity: '' @ format_val complexity @ nl @ nl
    @ str ''Context from previous steps:'' @ nl
    @ context @ nl @ nl
    @ str ''Provide:'' @ nl
    @ str ''1. What you did'' @ nl
    @ str ''2. The result'' @ nl
    @ str ''3. Any issues encountered'' @ nl
    @ str ''4. Whether this step is complete'' @ nl @ nl
    @ str ''Response:''"

text \<open>
  The first \<open>print\<close> reads \<open>step_number\<close> and \<open>description\<close>, the prompt reads
  \<open>description\<close> and \<open>estimated_complexity\<close>; the result is appended to the log; the last
  \<open>print\<close> slices the description, which raises TypeError on an integer, after the log
  has grown.
\<close>

definition execute_step ::
  "('l \<Rightarrow> pstr \<Rightarrow> pstr \<times> 'l) \<Rightarrow> 'l plan_agent \<Rightarrow> pydict \<Rightarrow> pstr
    \<Rightarrow> error + (pydict \<times> 'l plan_agent)" where
  "execute_step llm_invoke self step context =
    (case subscript (map_of step (str ''step_number'')) ''step_number'' of Inl e \<Rightarrow> Inl e
     | Inr step_number \<Rightarrow>
    (case subscript (map_of step (str ''description'')) ''description'' of Inl e \<Rightarrow> Inl e
     | Inr description \<Rightarrow>
    (case subscript (map_of step (str ''estimated_complexity'')) ''estimated_complexity'' of
       Inl e \<Rightarrow> Inl e
     | Inr complexity \<Rightarrow>
       (let (content, llm') = llm_invoke (llm self) (execution_prompt description complexity context);
            result = [(str ''step_number'', step_number),
                      (str ''description'', description),
                      (str ''output'', PStr content),
                      (str ''status'', PStr (str ''completed'')),
                      (str ''timestamp'', PStr (str ''now''))];
            self1 = self\<lparr>llm := llm', execution_log := execution_log self @ [result]\<rparr>
        in (case description of
              PInt i \<Rightarrow> Inl TypeError
            | PStr d \<Rightarrow> Inr (result, self1))))))"

subsection \<open>Monitoring\<close>

text \<open>
  The percentage is a Python float. Float arithmetic is outside the model: the true
  division of two integers is the parameter \<open>fdiv\<close> and the product of a float and an
  integer is the parameter \<open>fmul\<close>. What the model keeps is that \<open>/\<close> raises
  ZeroDivisionError on a zero divisor. Where the plan is empty the percentage is the
  integer \<open>0\<close>.
\<close>

datatype 'f number = IntVal int | FloatVal 'f

definition truediv :: "(int \<Rightarrow> int \<Rightarrow> 'f) \<Rightarrow> int \<Rightarrow> int \<Rightarrow> error + 'f" where
  "truediv fdiv a b = (if b = 0 then Inl ZeroDivisionError else Inr (fdiv a b))"

record 'f progress =
  total_steps :: int
  completed_steps :: int
  progress_percentage :: "'f number"
  remaining_steps :: int

definition monitor_progress ::
  "(int \<Rightarrow> int \<Rightarrow> 'f) \<Rightarrow> ('f \<Rightarrow> int \<Rightarrow> 'f) \<Rightarrow> 'l plan_agent \<Rightarrow> error + 'f progress" where
  "monitor_progress fdiv fmul self =
    (let total = int (length (current_plan self));
         completed = int (length (execution_log self))
     in case (if total > 0 then
                (case truediv fdiv completed total of
                   Inl e \<Rightarrow> Inl e
                 | Inr q \<Rightarrow> Inr (FloatVal (fmul q 100)))
              else Inr (IntVal 0)) of
          Inl e \<Rightarrow> Inl e
        | Inr percentage \<Rightarrow>
            Inr \<lparr>total_steps = total,
                 completed_steps = completed,
                 progress_percentage = percentage,
                 remaining_steps = total - completed\<rparr>)"

subsection \<open>The replanning hook\<close>

text \<open>
  \<open>last_result.get("output", "")\<close> is the empty string where the key is missing;
  \<open>.lower()\<close> raises AttributeError on an integer.
\<close>

definition should_replan :: "(pstr \<Rightarrow> pstr) \<Rightarrow> pydict \<Rightarrow> error + bool" where
  "should_replan lower last_result =
    (case (case map_of last_result (str ''output'') of None \<Rightarrow> PStr [] | Some v \<Rightarrow> v) of
       PInt i \<Rightarrow> Inl AttributeError
     | PStr output \<Rightarrow>
         if sublist (str ''error'') (lower output) then Inr True
         else if sublist (str ''failed'') (lower output) then Inr True
         else Inr False)"

subsection \<open>The run\<close>

text \<open>Phase 1 prints every step of the plan: it reads \<open>step_number\<close> and \<open>description\<close>.\<close>

fun print_plan :: "pydict list \<Rightarrow> error + unit" where
  "print_plan [] = Inr ()"
| "print_plan (step # plan) =
    (case subscript (map_of step (str ''step_number'')) ''step_number'' of Inl e \<Rightarrow> Inl e
     | Inr step_number \<Rightarrow>
    (case subscript (map_of step (str ''description'')) ''description'' of Inl e \<Rightarrow> Inl e
     | Inr description \<Rightarrow> print_plan plan))"

text \<open>
  Phase 2, the loop \<open>for step in plan\<close>. The loop state is the context string, the agent
  and the local variable \<open>progress\<close>, which is unbound (\<open>None\<close>) until the first
  iteration assigns it. The value of \<open>should_replan\<close> decides only whether a line is
  printed.
\<close>

fun execute_plan ::
  "('l \<Rightarrow> pstr \<Rightarrow> pstr \<times> 'l) \<Rightarrow> (pstr \<Rightarrow> pstr) \<Rightarrow> (int \<Rightarrow> int \<Rightarrow> 'f) \<Rightarrow> ('f \<Rightarrow> int \<Rightarrow> 'f)
    \<Rightarrow> pydict list \<Rightarrow> pstr \<times> 'l plan_agent \<times> 'f progress option
    \<Rightarrow> error + (pstr \<times> 'l plan_agent \<times> 'f progress option)" where
  "execute_plan llm_invoke lower fdiv fmul [] loop_state = Inr loop_state"
| "execute_plan llm_invoke lower fdiv fmul (step # plan) (context, self, progress) =
    (case execute_step llm_invoke self step context of Inl e \<Rightarrow> Inl e
     | Inr (result, self1) \<Rightarrow>
    (case subscript (map_of step (str ''step_number'')) ''step_number'' of Inl e \<Rightarrow> Inl e
     | Inr step_number \<Rightarrow>
    (case subscript (map_of result (str ''output'')) ''output'' of Inl e \<Rightarrow> Inl e
     | Inr (PInt i) \<Rightarrow> Inl TypeError
     | Inr (PStr output) \<Rightarrow>
    (case monitor_progress fdiv fmul self1 of Inl e \<Rightarrow> Inl e
     | Inr progress1 \<Rightarrow>
    (case should_replan lower result of Inl e \<Rightarrow> Inl e
     | Inr replan \<Rightarrow>
         execute_plan llm_invoke lower fdiv fmul plan
           (context @ str ''Step '' @ format_val step_number @ str '': '' @ take 200 output
              @ str ''...'' @ nl @ nl,
            self1, Some progress1))))))"

record 'f final_result =
  result_task :: pstr
  result_plan :: "pydict list"
  result_execution_log :: "pydict list"
  result_progress :: "'f progress"
  result_status :: pstr

text \<open>
  Phase 3 builds the result and then prints the local \<open>progress\<close>, which is unbound
  where the loop ran no iteration.
\<close>

definition run ::
  "('l \<Rightarrow> pstr \<Rightarrow> pstr \<times> 'l) \<Rightarrow> (pstr \<Rightarrow> pydict list option) \<Rightarrow> (pstr \<Rightarrow> pstr)
    \<Rightarrow> (int \<Rightarrow> int \<Rightarrow> 'f) \<Rightarrow> ('f \<Rightarrow> int \<Rightarrow> 'f) \<Rightarrow> 'l plan_agent \<Rightarrow> pstr
    \<Rightarrow> error + ('f final_result \<times> 'l plan_agent)" where
  "run llm_invoke json_loads lower fdiv fmul self task_v =
    (let (plan, self1) = create_plan llm_invoke json_loads self task_v in
    (case print_plan plan of Inl e \<Rightarrow> Inl e
     | Inr u \<Rightarrow>
    (case execute_plan llm_invoke lower fdiv fmul plan
            (str ''Task: '' @ task_v @ nl @ nl, self1, None) of Inl e \<Rightarrow> Inl e
     | Inr (context, self2, progress) \<Rightarrow>
    (case monitor_progress fdiv fmul self2 of Inl e \<Rightarrow> Inl e
     | Inr final_progress \<Rightarrow>
    (case progress of
       None \<Rightarrow> Inl UnboundLocalError
     | Some p \<Rightarrow>
         Inr (\<lparr>result_task = task_v,
               result_plan = plan,
               result_execution_log = execution_log self2,
               result_progress = final_progress,
               result_status = str ''completed''\<rparr>,
              self2))))))"

section \<open>Definitions used in the statements\<close>

text \<open>
  The state stored after \<open>k\<close> node executions of a run on the task \<open>t\<close>: every node
  returns the whole dictionary, so each execution appends the stored messages to
  themselves.
\<close>

definition state_at :: "nat \<Rightarrow> pstr \<Rightarrow> pstr \<Rightarrow> pstr \<Rightarrow> pstr \<Rightarrow> pstr \<Rightarrow> string \<Rightarrow> agent_state" where
  "state_at k t r a wr fo nx =
    \<lparr>messages = Some (replicate (2 ^ k) t), task = Some t, research_results = Some r,
     analysis_results = Some a, writing_results = Some wr, final_output = Some fo,
     next_agent = Some (str nx)\<rparr>"

text \<open>The report \<open>finalize_node\<close> composes, as a function of the four strings it reads.\<close>

definition report :: "pstr \<Rightarrow> pstr \<Rightarrow> pstr \<Rightarrow> pstr \<Rightarrow> pstr" where
  "report t r a wr =
    nl @ rule70 @ nl @ str ''FINAL REPORT'' @ nl @ rule70 @ nl @ nl
      @ str ''Task: '' @ t @ nl @ nl @ r @ nl @ nl @ a @ nl @ nl @ wr @ nl @ nl
      @ rule70 @ nl @ str ''Report complete.'' @ nl @ rule70 @ nl"

text \<open>
  Two instances of the parameters, for the examples: lower-casing of the ASCII letters for
  \<open>lower\<close>, and worker agents that return fixed strings.
\<close>

definition ascii_lower :: "pstr \<Rightarrow> pstr" where
  "ascii_lower s = map (\<lambda>c. if 65 \<le> c \<and> c \<le> 90 then c + 32 else c) s"

definition stub_agents :: "pstr \<Rightarrow> pstr \<Rightarrow> pstr \<Rightarrow> agents" where
  "stub_agents r a wr = \<lparr>research = (\<lambda>topic. r), analyze = (\<lambda>data. a), write' = (\<lambda>content. wr)\<rparr>"

text \<open>
  A step that \<open>execute_step\<close> can execute: it has the three keys the method reads, and
  its description is a string.
\<close>

definition step_ok :: "pydict \<Rightarrow> bool" where
  "step_ok step \<longleftrightarrow>
    map_of step (str ''step_number'') \<noteq> None
    \<and> (\<exists>d. map_of step (str ''description'') = Some (PStr d))
    \<and> map_of step (str ''estimated_complexity'') \<noteq> None"

text \<open>
  For the examples of the planning agent: a plan of two steps, a language model whose
  state counts the calls and whose every response reports a failure, and an agent with
  no plan and an empty log.
\<close>

definition example_plan :: "pydict list" where
  "example_plan =
    [[(str ''step_number'', PInt 1),
      (str ''description'', PStr (str ''Collect the data'')),
      (str ''estimated_complexity'', PStr (str ''low''))],
     [(str ''step_number'', PInt 2),
      (str ''description'', PStr (str ''Summarise the data'')),
      (str ''estimated_complexity'', PStr (str ''medium''))]]"

definition failing_llm :: "nat \<Rightarrow> pstr \<Rightarrow> pstr \<times> nat" where
  "failing_llm calls prompt = (str ''[The step FAILED with an Error]'', Suc calls)"

definition fresh_agent :: "nat plan_agent" where
  "fresh_agent = \<lparr>llm = 0, current_plan = [], execution_log = []\<rparr>"

text \<open>A language model whose every response is the empty JSON list.\<close>

definition empty_list_llm :: "nat \<Rightarrow> pstr \<Rightarrow> pstr \<times> nat" where
  "empty_list_llm calls prompt = (str ''[]'', Suc calls)"

section \<open>Facts about strings and stored values\<close>

lemma str_eq_iff: "str a = str b \<longleftrightarrow> a = b"
  unfolding str_def by (simp add: inj_map_eq_map [OF inj_of_char])

lemma str_Nil_iff: "str a = [] \<longleftrightarrow> a = []"
  by (simp add: str_def)

lemma str_simps:
  "str a = str b \<longleftrightarrow> a = b" "str a = [] \<longleftrightarrow> a = []" "[] = str a \<longleftrightarrow> a = []"
  using str_Nil_iff [of a] by (auto simp: str_eq_iff)

lemma last_value_simps:
  "last_value v v = v" "last_value v (Some x) = Some x" "last_value v None = v"
  by (cases v; simp add: last_value_def)+

section \<open>One node execution of the graph\<close>

text \<open>
  What one execution of each node does to a state in which the keys the node reads are
  present. The manager has one equation per branch of its chain.
\<close>

lemma run_graph_manager_research:
  "run_graph w (Suc n) (str ''manager'')
     \<lparr>messages = Some m, task = Some t, research_results = Some [], analysis_results = a,
      writing_results = wr, final_output = fo, next_agent = nx\<rparr> =
   (case run_graph w n (str ''research'')
           \<lparr>messages = Some (m @ m), task = Some t, research_results = Some [],
            analysis_results = a, writing_results = wr, final_output = fo,
            next_agent = Some (str ''research'')\<rparr> of
      Inl e \<Rightarrow> Inl e
    | Inr history \<Rightarrow>
        Inr ((str ''manager'',
              \<lparr>messages = Some (m @ m), task = Some t, research_results = Some [],
               analysis_results = a, writing_results = wr, final_output = fo,
               next_agent = Some (str ''research'')\<rparr>) # history))"
  by (simp add: nodes_def manager_node_def subscript_def truthy_def store_update_def
      last_value_simps next_node_def route_agent_def routing_def conditional_edges_def END_def
      str_simps Let_def)

lemma run_graph_manager_analysis:
  "r \<noteq> [] \<Longrightarrow>
   run_graph w (Suc n) (str ''manager'')
     \<lparr>messages = Some m, task = Some t, research_results = Some r, analysis_results = Some [],
      writing_results = wr, final_output = fo, next_agent = nx\<rparr> =
   (case run_graph w n (str ''analysis'')
           \<lparr>messages = Some (m @ m), task = Some t, research_results = Some r,
            analysis_results = Some [], writing_results = wr, final_output = fo,
            next_agent = Some (str ''analysis'')\<rparr> of
      Inl e \<Rightarrow> Inl e
    | Inr history \<Rightarrow>
        Inr ((str ''manager'',
              \<lparr>messages = Some (m @ m), task = Some t, research_results = Some r,
               analysis_results = Some [], writing_results = wr, final_output = fo,
               next_agent = Some (str ''analysis'')\<rparr>) # history))"
  by (simp add: nodes_def manager_node_def subscript_def truthy_def store_update_def
      last_value_simps next_node_def route_agent_def routing_def conditional_edges_def END_def
      str_simps Let_def)

lemma run_graph_manager_writing:
  "r \<noteq> [] \<Longrightarrow> a \<noteq> [] \<Longrightarrow>
   run_graph w (Suc n) (str ''manager'')
     \<lparr>messages = Some m, task = Some t, research_results = Some r, analysis_results = Some a,
      writing_results = Some [], final_output = fo, next_agent = nx\<rparr> =
   (case run_graph w n (str ''writing'')
           \<lparr>messages = Some (m @ m), task = Some t, research_results = Some r,
            analysis_results = Some a, writing_results = Some [], final_output = fo,
            next_agent = Some (str ''writing'')\<rparr> of
      Inl e \<Rightarrow> Inl e
    | Inr history \<Rightarrow>
        Inr ((str ''manager'',
              \<lparr>messages = Some (m @ m), task = Some t, research_results = Some r,
               analysis_results = Some a, writing_results = Some [], final_output = fo,
               next_agent = Some (str ''writing'')\<rparr>) # history))"
  by (simp add: nodes_def manager_node_def subscript_def truthy_def store_update_def
      last_value_simps next_node_def route_agent_def routing_def conditional_edges_def END_def
      str_simps Let_def)

lemma run_graph_manager_finalize:
  "r \<noteq> [] \<Longrightarrow> a \<noteq> [] \<Longrightarrow> wr \<noteq> [] \<Longrightarrow>
   run_graph w (Suc n) (str ''manager'')
     \<lparr>messages = Some m, task = Some t, research_results = Some r, analysis_results = Some a,
      writing_results = Some wr, final_output = fo, next_agent = nx\<rparr> =
   (case run_graph w n (str ''finalize'')
           \<lparr>messages = Some (m @ m), task = Some t, research_results = Some r,
            analysis_results = Some a, writing_results = Some wr, final_output = fo,
            next_agent = Some (str ''finalize'')\<rparr> of
      Inl e \<Rightarrow> Inl e
    | Inr history \<Rightarrow>
        Inr ((str ''manager'',
              \<lparr>messages = Some (m @ m), task = Some t, research_results = Some r,
               analysis_results = Some a, writing_results = Some wr, final_output = fo,
               next_agent = Some (str ''finalize'')\<rparr>) # history))"
  by (simp add: nodes_def manager_node_def subscript_def truthy_def store_update_def
      last_value_simps next_node_def route_agent_def routing_def conditional_edges_def END_def
      str_simps Let_def)

lemma run_graph_research:
  "run_graph w (Suc n) (str ''research'')
     \<lparr>messages = Some m, task = Some t, research_results = r0, analysis_results = a,
      writing_results = wr, final_output = fo, next_agent = nx\<rparr> =
   (let state' = \<lparr>messages = Some (m @ m), task = Some t, research_results = Some (research w t),
                  analysis_results = a, writing_results = wr, final_output = fo,
                  next_agent = Some (str ''manager'')\<rparr>
    in case run_graph w n (str ''manager'') state' of
         Inl e \<Rightarrow> Inl e
       | Inr history \<Rightarrow> Inr ((str ''research'', state') # history))"
  by (simp add: nodes_def research_node_def subscript_def store_update_def
      last_value_simps next_node_def edges_def END_def str_simps Let_def)

lemma run_graph_analysis:
  "run_graph w (Suc n) (str ''analysis'')
     \<lparr>messages = Some m, task = t, research_results = Some r, analysis_results = a0,
      writing_results = wr, final_output = fo, next_agent = nx\<rparr> =
   (let state' = \<lparr>messages = Some (m @ m), task = t, research_results = Some r,
                  analysis_results = Some (analyze w r), writing_results = wr, final_output = fo,
                  next_agent = Some (str ''manager'')\<rparr>
    in case run_graph w n (str ''manager'') state' of
         Inl e \<Rightarrow> Inl e
       | Inr history \<Rightarrow> Inr ((str ''analysis'', state') # history))"
  by (simp add: nodes_def analysis_node_def subscript_def store_update_def
      last_value_simps next_node_def edges_def END_def str_simps Let_def)

lemma run_graph_writing:
  "run_graph w (Suc n) (str ''writing'')
     \<lparr>messages = Some m, task = t, research_results = Some r, analysis_results = Some a,
      writing_results = wr0, final_output = fo, next_agent = nx\<rparr> =
   (let state' = \<lparr>messages = Some (m @ m), task = t, research_results = Some r,
                  analysis_results = Some a, writing_results = Some (write' w (r @ nl @ nl @ a)),
                  final_output = fo, next_agent = Some (str ''manager'')\<rparr>
    in case run_graph w n (str ''manager'') state' of
         Inl e \<Rightarrow> Inl e
       | Inr history \<Rightarrow> Inr ((str ''writing'', state') # history))"
  by (simp add: nodes_def writing_node_def subscript_def store_update_def
      last_value_simps next_node_def edges_def END_def str_simps Let_def)

lemma run_graph_finalize:
  "run_graph w (Suc n) (str ''finalize'')
     \<lparr>messages = Some m, task = Some t, research_results = Some r, analysis_results = Some a,
      writing_results = Some wr, final_output = fo0, next_agent = nx\<rparr> =
   Inr [(str ''finalize'',
         \<lparr>messages = Some (m @ m), task = Some t, research_results = Some r,
          analysis_results = Some a, writing_results = Some wr,
          final_output = Some
            (nl @ rule70 @ nl @ str ''FINAL REPORT'' @ nl @ rule70 @ nl @ nl
               @ str ''Task: '' @ t @ nl @ nl @ r @ nl @ nl @ a @ nl @ nl @ wr @ nl @ nl
               @ rule70 @ nl @ str ''Report complete.'' @ nl @ rule70 @ nl),
          next_agent = Some (str ''end'')\<rparr>)]"
  by (cases n) (simp_all add: nodes_def finalize_node_def subscript_def store_update_def
      last_value_simps next_node_def edges_def END_def str_simps Let_def)

text \<open>
  A run that ends within some number of node executions ends with the same history under
  any number that covers its length, and raises GraphRecursionError under any smaller one.
\<close>

lemma run_graph_fuel:
  "run_graph w n node state = Inr history \<Longrightarrow>
   run_graph w m node state = (if length history \<le> m then Inr history else Inl GraphRecursionError)"
proof (induction n arbitrary: m node state history)
  case 0
  then show ?case by (cases m) (auto split: if_splits)
next
  case (Suc n)
  show ?case
  proof (cases "node = END")
    case True
    with Suc.prems show ?thesis by (cases m) auto
  next
    case False
    with Suc.prems obtain node_fn returned target rest where
      f: "map_of (nodes w) node = Some node_fn" and
      r: "node_fn state = Inr returned" and
      t: "next_node node (store_update state returned) = Inr target" and
      h: "run_graph w n target (store_update state returned) = Inr rest" and
      hist: "history = (node, store_update state returned) # rest"
      by (auto simp: Let_def split: option.splits sum.splits)
    show ?thesis
    proof (cases m)
      case 0
      with False hist show ?thesis by simp
    next
      case (Suc m')
      with False f r t hist Suc.IH [OF h, of m'] show ?thesis by (simp add: Let_def)
    qed
  qed
qed

section \<open>The run from the initial state\<close>

lemma initial_state_at: "initial_state t = state_at 0 t [] [] [] [] ''manager''"
  by (simp add: initial_state_def state_at_def)

lemma double_replicate: "replicate (2 ^ k) t @ replicate (2 ^ k) t = replicate (2 ^ Suc k) t"
  by (simp add: replicate_add [symmetric] mult_2)

lemma step_manager_research:
  "run_graph w (Suc n) (str ''manager'') (state_at k t [] a wr fo nx) =
   (case run_graph w n (str ''research'') (state_at (Suc k) t [] a wr fo ''research'') of
      Inl e \<Rightarrow> Inl e
    | Inr history \<Rightarrow> Inr ((str ''manager'', state_at (Suc k) t [] a wr fo ''research'') # history))"
  unfolding state_at_def run_graph_manager_research double_replicate ..

lemma step_research:
  "run_graph w (Suc n) (str ''research'') (state_at k t r0 a wr fo nx) =
   (case run_graph w n (str ''manager'') (state_at (Suc k) t (research w t) a wr fo ''manager'') of
      Inl e \<Rightarrow> Inl e
    | Inr history \<Rightarrow>
        Inr ((str ''research'', state_at (Suc k) t (research w t) a wr fo ''manager'') # history))"
  unfolding state_at_def run_graph_research double_replicate Let_def ..

lemma step_manager_analysis:
  "r \<noteq> [] \<Longrightarrow>
   run_graph w (Suc n) (str ''manager'') (state_at k t r [] wr fo nx) =
   (case run_graph w n (str ''analysis'') (state_at (Suc k) t r [] wr fo ''analysis'') of
      Inl e \<Rightarrow> Inl e
    | Inr history \<Rightarrow> Inr ((str ''manager'', state_at (Suc k) t r [] wr fo ''analysis'') # history))"
  unfolding state_at_def double_replicate [symmetric] by (rule run_graph_manager_analysis)

lemma step_analysis:
  "run_graph w (Suc n) (str ''analysis'') (state_at k t r a0 wr fo nx) =
   (case run_graph w n (str ''manager'') (state_at (Suc k) t r (analyze w r) wr fo ''manager'') of
      Inl e \<Rightarrow> Inl e
    | Inr history \<Rightarrow>
        Inr ((str ''analysis'', state_at (Suc k) t r (analyze w r) wr fo ''manager'') # history))"
  unfolding state_at_def run_graph_analysis double_replicate Let_def ..

lemma step_manager_writing:
  "r \<noteq> [] \<Longrightarrow> a \<noteq> [] \<Longrightarrow>
   run_graph w (Suc n) (str ''manager'') (state_at k t r a [] fo nx) =
   (case run_graph w n (str ''writing'') (state_at (Suc k) t r a [] fo ''writing'') of
      Inl e \<Rightarrow> Inl e
    | Inr history \<Rightarrow> Inr ((str ''manager'', state_at (Suc k) t r a [] fo ''writing'') # history))"
  unfolding state_at_def double_replicate [symmetric] by (rule run_graph_manager_writing)

lemma step_writing:
  "run_graph w (Suc n) (str ''writing'') (state_at k t r a wr0 fo nx) =
   (case run_graph w n (str ''manager'')
           (state_at (Suc k) t r a (write' w (r @ nl @ nl @ a)) fo ''manager'') of
      Inl e \<Rightarrow> Inl e
    | Inr history \<Rightarrow>
        Inr ((str ''writing'', state_at (Suc k) t r a (write' w (r @ nl @ nl @ a)) fo ''manager'')
             # history))"
  unfolding state_at_def run_graph_writing double_replicate Let_def ..

lemma step_manager_finalize:
  "r \<noteq> [] \<Longrightarrow> a \<noteq> [] \<Longrightarrow> wr \<noteq> [] \<Longrightarrow>
   run_graph w (Suc n) (str ''manager'') (state_at k t r a wr fo nx) =
   (case run_graph w n (str ''finalize'') (state_at (Suc k) t r a wr fo ''finalize'') of
      Inl e \<Rightarrow> Inl e
    | Inr history \<Rightarrow> Inr ((str ''manager'', state_at (Suc k) t r a wr fo ''finalize'') # history))"
  unfolding state_at_def double_replicate [symmetric] by (rule run_graph_manager_finalize)

lemma step_finalize:
  "run_graph w (Suc n) (str ''finalize'') (state_at k t r a wr fo nx) =
   Inr [(str ''finalize'', state_at (Suc k) t r a wr (report t r a wr) ''end'')]"
  unfolding state_at_def report_def run_graph_finalize double_replicate ..

lemma run_graph_not_END_0: "node \<noteq> END \<Longrightarrow> run_graph w 0 node state = Inl GraphRecursionError"
  by simp

lemma node_names_not_END:
  "str ''manager'' \<noteq> END" "str ''research'' \<noteq> END" "str ''analysis'' \<noteq> END"
  "str ''writing'' \<noteq> END" "str ''finalize'' \<noteq> END"
  by (simp_all add: END_def str_eq_iff)

text \<open>Eight node executions complete the run when every worker returns a non-empty string.\<close>

lemma run_graph_completes:
  assumes "research w t \<noteq> []"
    and "analyze w (research w t) \<noteq> []"
    and "write' w (research w t @ nl @ nl @ analyze w (research w t)) \<noteq> []"
  shows "run_graph w 8 entry_point (initial_state t) =
    (let r = research w t; a = analyze w r; wr = write' w (r @ nl @ nl @ a) in
     Inr [(str ''manager'', state_at 1 t [] [] [] [] ''research''),
          (str ''research'', state_at 2 t r [] [] [] ''manager''),
          (str ''manager'', state_at 3 t r [] [] [] ''analysis''),
          (str ''analysis'', state_at 4 t r a [] [] ''manager''),
          (str ''manager'', state_at 5 t r a [] [] ''writing''),
          (str ''writing'', state_at 6 t r a wr [] ''manager''),
          (str ''manager'', state_at 7 t r a wr [] ''finalize''),
          (str ''finalize'', state_at 8 t r a wr (report t r a wr) ''end'')])"
proof -
  have fuel: "(8::nat) = Suc (Suc (Suc (Suc (Suc (Suc (Suc (Suc 0)))))))"
    by simp
  show ?thesis
    unfolding fuel entry_point_def initial_state_at Let_def
    by (simp add: step_manager_research step_research step_manager_analysis step_analysis
        step_manager_writing step_writing step_manager_finalize step_finalize assms
        numeral_eq_Suc del: run_graph.simps)
qed

text \<open>
  A worker that returns the empty string leaves its field empty, so the manager selects
  the same worker again: the run never reaches \<open>finalize\<close>, however many node executions it may make.
\<close>

lemma loop_research:
  assumes "research w t = []"
  shows "run_graph w n (str ''manager'') (state_at k t [] a wr fo nx) = Inl GraphRecursionError
    \<and> run_graph w n (str ''research'') (state_at k t r0 a wr fo nx) = Inl GraphRecursionError"
proof (induction n arbitrary: k r0 nx)
  case 0
  show ?case by (simp add: node_names_not_END)
next
  case (Suc n)
  show ?case
    by (simp add: step_manager_research step_research assms Suc.IH del: run_graph.simps)
qed

lemma loop_analysis:
  assumes "r \<noteq> []" and "analyze w r = []"
  shows "run_graph w n (str ''manager'') (state_at k t r [] wr fo nx) = Inl GraphRecursionError
    \<and> run_graph w n (str ''analysis'') (state_at k t r a0 wr fo nx) = Inl GraphRecursionError"
proof (induction n arbitrary: k a0 nx)
  case 0
  show ?case by (simp add: node_names_not_END)
next
  case (Suc n)
  show ?case
    by (simp add: step_manager_analysis step_analysis assms Suc.IH del: run_graph.simps)
qed

lemma loop_writing:
  assumes "r \<noteq> []" and "a \<noteq> []" and "write' w (r @ nl @ nl @ a) = []"
  shows "run_graph w n (str ''manager'') (state_at k t r a [] fo nx) = Inl GraphRecursionError
    \<and> run_graph w n (str ''writing'') (state_at k t r a wr0 fo nx) = Inl GraphRecursionError"
proof (induction n arbitrary: k wr0 nx)
  case 0
  show ?case by (simp add: node_names_not_END)
next
  case (Suc n)
  show ?case
    by (simp add: step_manager_writing step_writing assms Suc.IH del: run_graph.simps)
qed

lemma run_graph_stuck:
  assumes "research w t = [] \<or> analyze w (research w t) = []
    \<or> write' w (research w t @ nl @ nl @ analyze w (research w t)) = []"
  shows "run_graph w limit entry_point (initial_state t) = Inl GraphRecursionError"
proof -
  consider (r) "research w t = []"
    | (a) "research w t \<noteq> []" "analyze w (research w t) = []"
    | (wr) "research w t \<noteq> []" "analyze w (research w t) \<noteq> []"
        "write' w (research w t @ nl @ nl @ analyze w (research w t)) = []"
    using assms by blast
  then show ?thesis
  proof cases
    case r
    then show ?thesis
      unfolding entry_point_def initial_state_at by (simp add: loop_research)
  next
    case a
    have "run_graph w n (str ''manager'') (state_at 0 t [] [] [] [] ''manager'')
      = Inl GraphRecursionError" for n
    proof (cases n)
      case 0
      then show ?thesis by (simp add: node_names_not_END)
    next
      case n1: (Suc n1)
      show ?thesis
      proof (cases n1)
        case 0
        with n1 show ?thesis
          by (simp add: step_manager_research run_graph_not_END_0 node_names_not_END
              del: run_graph.simps)
      next
        case (Suc n2)
        with n1 a show ?thesis
          by (simp add: step_manager_research step_research loop_analysis del: run_graph.simps)
      qed
    qed
    then show ?thesis
      unfolding entry_point_def initial_state_at .
  next
    case wr
    have tail: "run_graph w n (str ''manager'') (state_at 2 t (research w t) [] [] [] ''manager'')
      = Inl GraphRecursionError" for n
    proof (cases n)
      case 0
      then show ?thesis by (simp add: node_names_not_END)
    next
      case n1: (Suc n1)
      show ?thesis
      proof (cases n1)
        case 0
        with n1 wr show ?thesis
          by (simp add: step_manager_analysis run_graph_not_END_0 node_names_not_END
              del: run_graph.simps)
      next
        case (Suc n2)
        with n1 wr show ?thesis
          by (simp add: step_manager_analysis step_analysis loop_writing numeral_eq_Suc
              del: run_graph.simps)
      qed
    qed
    have "run_graph w n (str ''manager'') (state_at 0 t [] [] [] [] ''manager'')
      = Inl GraphRecursionError" for n
    proof (cases n)
      case 0
      then show ?thesis by (simp add: node_names_not_END)
    next
      case n1: (Suc n1)
      show ?thesis
      proof (cases n1)
        case 0
        with n1 show ?thesis
          by (simp add: step_manager_research run_graph_not_END_0 node_names_not_END
              del: run_graph.simps)
      next
        case (Suc n2)
        with n1 tail [of n2] show ?thesis
          by (simp add: step_manager_research step_research numeral_eq_Suc del: run_graph.simps)
      qed
    qed
    then show ?thesis
      unfolding entry_point_def initial_state_at .
  qed
qed

text \<open>The agents of the module never return the empty string.\<close>

lemma module_agents_nonempty:
  "research (module_agents lower) topic \<noteq> []"
  "analyze (module_agents lower) data \<noteq> []"
  "write' (module_agents lower) content \<noteq> []"
  by (simp_all add: module_agents_def ResearchAgent_research_def AnalysisAgent_analyze_def
      WritingAgent_write_def str_Nil_iff nl_def)

text \<open>
  The run from the initial state, for every choice of worker agents and every number of
  node executions allowed.
\<close>

lemma run_graph_initial_state:
  "run_graph w limit entry_point (initial_state t) =
    (let r = research w t; a = analyze w r; wr = write' w (r @ nl @ nl @ a) in
     if r \<noteq> [] \<and> a \<noteq> [] \<and> wr \<noteq> [] \<and> 8 \<le> limit then
       Inr [(str ''manager'', state_at 1 t [] [] [] [] ''research''),
            (str ''research'', state_at 2 t r [] [] [] ''manager''),
            (str ''manager'', state_at 3 t r [] [] [] ''analysis''),
            (str ''analysis'', state_at 4 t r a [] [] ''manager''),
            (str ''manager'', state_at 5 t r a [] [] ''writing''),
            (str ''writing'', state_at 6 t r a wr [] ''manager''),
            (str ''manager'', state_at 7 t r a wr [] ''finalize''),
            (str ''finalize'', state_at 8 t r a wr (report t r a wr) ''end'')]
     else Inl GraphRecursionError)"
proof (cases "research w t \<noteq> [] \<and> analyze w (research w t) \<noteq> []
    \<and> write' w (research w t @ nl @ nl @ analyze w (research w t)) \<noteq> []")
  case True
  then have "run_graph w 8 entry_point (initial_state t) = Inr
      [(str ''manager'', state_at 1 t [] [] [] [] ''research''),
       (str ''research'', state_at 2 t (research w t) [] [] [] ''manager''),
       (str ''manager'', state_at 3 t (research w t) [] [] [] ''analysis''),
       (str ''analysis'', state_at 4 t (research w t) (analyze w (research w t)) [] [] ''manager''),
       (str ''manager'', state_at 5 t (research w t) (analyze w (research w t)) [] [] ''writing''),
       (str ''writing'', state_at 6 t (research w t) (analyze w (research w t))
          (write' w (research w t @ nl @ nl @ analyze w (research w t))) [] ''manager''),
       (str ''manager'', state_at 7 t (research w t) (analyze w (research w t))
          (write' w (research w t @ nl @ nl @ analyze w (research w t))) [] ''finalize''),
       (str ''finalize'', state_at 8 t (research w t) (analyze w (research w t))
          (write' w (research w t @ nl @ nl @ analyze w (research w t)))
          (report t (research w t) (analyze w (research w t))
             (write' w (research w t @ nl @ nl @ analyze w (research w t)))) ''end'')]"
    using run_graph_completes [of w t] by (simp add: Let_def)
  from run_graph_fuel [OF this, of limit] True show ?thesis
    by (simp add: Let_def)
next
  case False
  then have "run_graph w limit entry_point (initial_state t) = Inl GraphRecursionError"
    by (intro run_graph_stuck) blast
  with False show ?thesis
    by (auto simp: Let_def)
qed

section \<open>The manager\<close>

text \<open>
  Where the keys it reads by subscript are present, the manager returns the state with
  \<open>next_agent\<close> overwritten; where it returns at all, they were present.
\<close>

lemma manager_node_present:
  assumes "task state = Some task_v" and "messages state = Some messages_v"
  shows "manager_node state = Inr (state\<lparr>next_agent := Some
    (if \<not> truthy (research_results state) then str ''research''
     else if \<not> truthy (analysis_results state) then str ''analysis''
     else if \<not> truthy (writing_results state) then str ''writing''
     else str ''finalize'')\<rparr>)"
  using assms by (simp add: manager_node_def subscript_def)

lemma manager_node_Inr_reads:
  assumes "manager_node state = Inr state'"
  shows "\<exists>task_v messages_v. task state = Some task_v \<and> messages state = Some messages_v"
proof (cases "task state")
  case None
  with assms show ?thesis by (simp add: manager_node_def subscript_def)
next
  case task_v: (Some task_v)
  show ?thesis
  proof (cases "messages state")
    case None
    with assms task_v show ?thesis by (simp add: manager_node_def subscript_def)
  next
    case (Some messages_v)
    with task_v show ?thesis by simp
  qed
qed

lemma truthy_iff: "truthy v \<longleftrightarrow> v \<noteq> None \<and> v \<noteq> Some []"
  by (cases v) (simp_all add: truthy_def)

lemma state_at_fields:
  "task (state_at k t r a wr fo nx) = Some t"
  "research_results (state_at k t r a wr fo nx) = Some r"
  "analysis_results (state_at k t r a wr fo nx) = Some a"
  "writing_results (state_at k t r a wr fo nx) = Some wr"
  "final_output (state_at k t r a wr fo nx) = Some fo"
  "next_agent (state_at k t r a wr fo nx) = Some (str nx)"
  by (simp_all add: state_at_def)

lemma truthy_Some: "truthy (Some s) \<longleftrightarrow> s \<noteq> []"
  by (simp add: truthy_def)

text \<open>The hidden first step: the stored state always has the key \<open>messages\<close>.\<close>

lemma start_messages:
  "messages (start input) = Some (case messages input of None \<Rightarrow> [] | Some given \<Rightarrow> given)"
  by (simp add: start_def store_update_def empty_channels_def split: option.splits)

lemma start_initial_state: "start (initial_state t) = initial_state t"
  by (simp add: start_def store_update_def empty_channels_def initial_state_def last_value_def)

text \<open>
  The run from the state \<open>main\<close> builds, under every recursion limit: the eight node
  executions need a limit of nine.
\<close>

lemma invoke_history_initial_state:
  "invoke_history w limit (initial_state t) =
    (let r = research w t; a = analyze w r; wr = write' w (r @ nl @ nl @ a) in
     if limit = 0 then Inl ValueError
     else if r \<noteq> [] \<and> a \<noteq> [] \<and> wr \<noteq> [] \<and> 9 \<le> limit then
       Inr [(str ''manager'', state_at 1 t [] [] [] [] ''research''),
            (str ''research'', state_at 2 t r [] [] [] ''manager''),
            (str ''manager'', state_at 3 t r [] [] [] ''analysis''),
            (str ''analysis'', state_at 4 t r a [] [] ''manager''),
            (str ''manager'', state_at 5 t r a [] [] ''writing''),
            (str ''writing'', state_at 6 t r a wr [] ''manager''),
            (str ''manager'', state_at 7 t r a wr [] ''finalize''),
            (str ''finalize'', state_at 8 t r a wr (report t r a wr) ''end'')]
     else Inl GraphRecursionError)"
proof (cases "limit = 0")
  case True
  then show ?thesis by (simp add: invoke_history_def Let_def)
next
  case False
  then have "8 \<le> limit - 1 \<longleftrightarrow> 9 \<le> limit"
    by arith
  with False show ?thesis
    by (simp add: invoke_history_def start_initial_state run_graph_initial_state Let_def)
qed

lemma invoke_initial_state:
  "invoke w limit (initial_state t) =
    (let r = research w t; a = analyze w r; wr = write' w (r @ nl @ nl @ a) in
     if limit = 0 then Inl ValueError
     else if r \<noteq> [] \<and> a \<noteq> [] \<and> wr \<noteq> [] \<and> 9 \<le> limit
     then Inr (state_at 8 t r a wr (report t r a wr) ''end'')
     else Inl GraphRecursionError)"
  by (simp add: invoke_def invoke_history_initial_state Let_def)

section \<open>The claims about the hierarchical example\<close>

text \<open>
  C1. The manager selects the next step by a chain of tests in a fixed order, the first
  match winning: \<open>research\<close> when \<open>research_results\<close> is empty (missing or the empty
  string), else \<open>analysis\<close> when \<open>analysis_results\<close> is empty, else \<open>writing\<close> when
  \<open>writing_results\<close> is empty, else \<open>finalize\<close>. The selected step is written to
  \<open>next_agent\<close>. The manager reads \<open>task\<close> and \<open>messages\<close> by subscript, so the state
  must have these two keys.
\<close>

theorem manager_node_priority_chain:
  assumes "task state \<noteq> None" and "messages state \<noteq> None"
  shows "manager_node state = Inr (state\<lparr>next_agent := Some
    (if research_results state = None \<or> research_results state = Some [] then str ''research''
     else if analysis_results state = None \<or> analysis_results state = Some [] then str ''analysis''
     else if writing_results state = None \<or> writing_results state = Some [] then str ''writing''
     else str ''finalize'')\<rparr>)"
proof -
  from assms obtain task_v messages_v
    where "task state = Some task_v" and "messages state = Some messages_v"
    by auto
  then show ?thesis
    by (simp add: manager_node_present truthy_iff)
qed

text \<open>
  The four cases on the state \<open>main\<close> builds for the task \<open>demo\<close>: nothing filled,
  research filled, research and analysis filled, all three filled.
\<close>

theorem manager_node_priority_chain_witness:
  "manager_node (initial_state (str ''demo'')) =
     Inr ((initial_state (str ''demo''))\<lparr>next_agent := Some (str ''research'')\<rparr>)
   \<and> manager_node ((initial_state (str ''demo''))\<lparr>research_results := Some (str ''R'')\<rparr>) =
     Inr ((initial_state (str ''demo''))
       \<lparr>research_results := Some (str ''R''), next_agent := Some (str ''analysis'')\<rparr>)
   \<and> manager_node ((initial_state (str ''demo''))
       \<lparr>research_results := Some (str ''R''), analysis_results := Some (str ''A'')\<rparr>) =
     Inr ((initial_state (str ''demo''))
       \<lparr>research_results := Some (str ''R''), analysis_results := Some (str ''A''),
        next_agent := Some (str ''writing'')\<rparr>)
   \<and> manager_node ((initial_state (str ''demo''))
       \<lparr>research_results := Some (str ''R''), analysis_results := Some (str ''A''),
        writing_results := Some (str ''W'')\<rparr>) =
     Inr ((initial_state (str ''demo''))
       \<lparr>research_results := Some (str ''R''), analysis_results := Some (str ''A''),
        writing_results := Some (str ''W''), next_agent := Some (str ''finalize'')\<rparr>)"
  using manager_node_priority_chain [of "initial_state (str ''demo'')"]
    manager_node_priority_chain
      [of "(initial_state (str ''demo''))\<lparr>research_results := Some (str ''R'')\<rparr>"]
    manager_node_priority_chain
      [of "(initial_state (str ''demo''))
        \<lparr>research_results := Some (str ''R''), analysis_results := Some (str ''A'')\<rparr>"]
    manager_node_priority_chain
      [of "(initial_state (str ''demo''))
        \<lparr>research_results := Some (str ''R''), analysis_results := Some (str ''A''),
         writing_results := Some (str ''W'')\<rparr>"]
  by (simp add: initial_state_def str_Nil_iff)

text \<open>
  C2. On the state \<open>main\<close> builds for any task, with the agents of the module, the run of
  the graph executes eight nodes and stops: the manager before each of research,
  analysis, writing and finalize, in this order, which are the four worker and finalize
  invocations. Each of the four fills one field that was empty (the three result fields
  and \<open>final_output\<close>), after the field before it was filled, and no field becomes empty
  again. The run completes under every recursion limit of at least nine, the default of
  25 included; a smaller limit raises GraphRecursionError, and a limit of zero
  ValueError.
\<close>

theorem run_performs_four_invocations:
  "\<exists>history.
     invoke_history (module_agents lower) limit (initial_state t) =
       (if limit = 0 then Inl ValueError
        else if 9 \<le> limit then Inr history
        else Inl GraphRecursionError)
     \<and> map fst history =
         [str ''manager'', str ''research'', str ''manager'', str ''analysis'',
          str ''manager'', str ''writing'', str ''manager'', str ''finalize'']
     \<and> filter (\<lambda>node. node \<noteq> str ''manager'') (map fst history) =
         [str ''research'', str ''analysis'', str ''writing'', str ''finalize'']
     \<and> map (\<lambda>(node, state). (truthy (research_results state), truthy (analysis_results state),
                truthy (writing_results state), truthy (final_output state))) history =
         [(False, False, False, False), (True, False, False, False),
          (True, False, False, False), (True, True, False, False),
          (True, True, False, False), (True, True, True, False),
          (True, True, True, False), (True, True, True, True)]"
proof -
  define r where "r = research (module_agents lower) t"
  define a where "a = analyze (module_agents lower) r"
  define wr where "wr = write' (module_agents lower) (r @ nl @ nl @ a)"
  define history where "history =
    [(str ''manager'', state_at 1 t [] [] [] [] ''research''),
     (str ''research'', state_at 2 t r [] [] [] ''manager''),
     (str ''manager'', state_at 3 t r [] [] [] ''analysis''),
     (str ''analysis'', state_at 4 t r a [] [] ''manager''),
     (str ''manager'', state_at 5 t r a [] [] ''writing''),
     (str ''writing'', state_at 6 t r a wr [] ''manager''),
     (str ''manager'', state_at 7 t r a wr [] ''finalize''),
     (str ''finalize'', state_at 8 t r a wr (report t r a wr) ''end'')]"
  have filled: "r \<noteq> []" "a \<noteq> []" "wr \<noteq> []"
    by (simp_all add: r_def a_def wr_def module_agents_nonempty)
  have reported: "report t r a wr \<noteq> []"
    by (simp add: report_def nl_def)
  have h1: "invoke_history (module_agents lower) limit (initial_state t) =
      (if limit = 0 then Inl ValueError
       else if 9 \<le> limit then Inr history
       else Inl GraphRecursionError)"
    using invoke_history_initial_state [of "module_agents lower" limit t] filled
    by (simp add: Let_def r_def a_def wr_def history_def)
  have h2: "map fst history =
      [str ''manager'', str ''research'', str ''manager'', str ''analysis'',
       str ''manager'', str ''writing'', str ''manager'', str ''finalize'']"
    by (simp add: history_def)
  have h3: "filter (\<lambda>node. node \<noteq> str ''manager'') (map fst history) =
      [str ''research'', str ''analysis'', str ''writing'', str ''finalize'']"
    by (simp add: history_def str_eq_iff)
  have h4: "map (\<lambda>(node, state). (truthy (research_results state),
        truthy (analysis_results state), truthy (writing_results state),
        truthy (final_output state))) history =
      [(False, False, False, False), (True, False, False, False),
       (True, False, False, False), (True, True, False, False),
       (True, True, False, False), (True, True, True, False),
       (True, True, True, False), (True, True, True, True)]"
    by (simp add: history_def state_at_fields truthy_Some filled reported)
  show ?thesis
    by (rule exI [of _ history]) (rule conjI h1 h2 h3 h4)+
qed

text \<open>The run on the task \<open>demo\<close> under the default recursion limit.\<close>

theorem run_performs_four_invocations_witness:
  "\<exists>history.
     invoke_history (module_agents ascii_lower) default_recursion_limit
       (initial_state (str ''demo'')) = Inr history
     \<and> map fst history =
         [str ''manager'', str ''research'', str ''manager'', str ''analysis'',
          str ''manager'', str ''writing'', str ''manager'', str ''finalize'']"
  using run_performs_four_invocations [of ascii_lower default_recursion_limit "str ''demo''"]
  by (auto simp: default_recursion_limit_def)

text \<open>
  C3. For any worker agents that return non-empty strings and any recursion limit of at
  least nine, every state of the run (the initial one and the one stored after each node)
  has \<open>analysis_results\<close> filled only if \<open>research_results\<close> is, and \<open>writing_results\<close>
  filled only if \<open>analysis_results\<close> is. The table of the three fields after each node
  shows each field written once, by its own worker, and never changed afterwards; the
  research result is the research agent's answer to the task, the analysis result is the
  analysis agent's answer to the research result, and the writing result is the writing
  agent's answer to the research result and the analysis result joined by an empty line.
\<close>

theorem result_fields_filled_in_order:
  assumes "research w t \<noteq> []"
    and "analyze w (research w t) \<noteq> []"
    and "write' w (research w t @ nl @ nl @ analyze w (research w t)) \<noteq> []"
    and "9 \<le> limit"
  shows "\<exists>history.
     invoke_history w limit (initial_state t) = Inr history
     \<and> (\<forall>state \<in> set (initial_state t # map snd history).
           (truthy (writing_results state) \<longrightarrow> truthy (analysis_results state))
           \<and> (truthy (analysis_results state) \<longrightarrow> truthy (research_results state)))
     \<and> (let r = research w t; a = analyze w r; wr = write' w (r @ nl @ nl @ a) in
         map (\<lambda>(node, state).
                (node, research_results state, analysis_results state, writing_results state))
             history =
           [(str ''manager'', Some [], Some [], Some []),
            (str ''research'', Some r, Some [], Some []),
            (str ''manager'', Some r, Some [], Some []),
            (str ''analysis'', Some r, Some a, Some []),
            (str ''manager'', Some r, Some a, Some []),
            (str ''writing'', Some r, Some a, Some wr),
            (str ''manager'', Some r, Some a, Some wr),
            (str ''finalize'', Some r, Some a, Some wr)])"
  using invoke_history_initial_state [of w limit t] assms
  by (simp add: Let_def state_at_fields truthy_Some initial_state_at)

text \<open>The run of the module's own agents on the task \<open>demo\<close>, under the default limit.\<close>

theorem result_fields_filled_in_order_witness:
  "\<exists>history.
     invoke_history (module_agents ascii_lower) default_recursion_limit
       (initial_state (str ''demo'')) = Inr history
     \<and> map (\<lambda>(node, state). (node, truthy (research_results state),
                truthy (analysis_results state), truthy (writing_results state))) history =
         [(str ''manager'', False, False, False),
          (str ''research'', True, False, False),
          (str ''manager'', True, False, False),
          (str ''analysis'', True, True, False),
          (str ''manager'', True, True, False),
          (str ''writing'', True, True, True),
          (str ''manager'', True, True, True),
          (str ''finalize'', True, True, True)]"
proof -
  let ?w = "module_agents ascii_lower"
  let ?r = "research ?w (str ''demo'')"
  let ?a = "analyze ?w ?r"
  let ?wr = "write' ?w (?r @ nl @ nl @ ?a)"
  have filled: "?r \<noteq> []" "?a \<noteq> []" "?wr \<noteq> []"
    by (simp_all add: module_agents_nonempty)
  have limit: "9 \<le> default_recursion_limit"
    by (simp add: default_recursion_limit_def)
  from result_fields_filled_in_order [OF filled limit]
  obtain history where
    run: "invoke_history ?w default_recursion_limit (initial_state (str ''demo'')) = Inr history"
    and table: "map (\<lambda>(node, state).
        (node, research_results state, analysis_results state, writing_results state)) history =
      [(str ''manager'', Some [], Some [], Some []),
       (str ''research'', Some ?r, Some [], Some []),
       (str ''manager'', Some ?r, Some [], Some []),
       (str ''analysis'', Some ?r, Some ?a, Some []),
       (str ''manager'', Some ?r, Some ?a, Some []),
       (str ''writing'', Some ?r, Some ?a, Some ?wr),
       (str ''manager'', Some ?r, Some ?a, Some ?wr),
       (str ''finalize'', Some ?r, Some ?a, Some ?wr)]"
    by (auto simp: Let_def)
  have "map (\<lambda>(node, state). (node, truthy (research_results state),
        truthy (analysis_results state), truthy (writing_results state))) history =
      map (\<lambda>(node, r, a, wr). (node, truthy r, truthy a, truthy wr))
        (map (\<lambda>(node, state).
          (node, research_results state, analysis_results state, writing_results state)) history)"
    by (simp add: case_prod_beta)
  then have flags: "map (\<lambda>(node, state). (node, truthy (research_results state),
        truthy (analysis_results state), truthy (writing_results state))) history =
      [(str ''manager'', False, False, False),
       (str ''research'', True, False, False),
       (str ''manager'', True, False, False),
       (str ''analysis'', True, True, False),
       (str ''manager'', True, True, False),
       (str ''writing'', True, True, True),
       (str ''manager'', True, True, True),
       (str ''finalize'', True, True, True)]"
    unfolding table by (simp add: truthy_Some filled)
  show ?thesis
    by (rule exI [of _ history]) (rule conjI run flags)+
qed

text \<open>
  C4, as stated: for every triple of worker outputs the run ends with a report that holds
  the task and the three outputs. It does not for an empty output: with a research agent
  that returns the empty string and the other two returning \<open>A\<close> and \<open>W\<close>, the run on
  \<open>demo\<close> under the default recursion limit produces no report and raises
  GraphRecursionError, because the manager takes the empty field for a step not yet done.
\<close>

theorem no_report_for_empty_worker_output:
  "invoke (stub_agents [] (str ''A'') (str ''W'')) default_recursion_limit
     (initial_state (str ''demo'')) = Inl GraphRecursionError"
  by (simp add: invoke_initial_state stub_agents_def default_recursion_limit_def)

text \<open>
  C4, amended. For any worker agents, task and recursion limit: when the three worker
  outputs are non-empty and the limit is at least nine, the run ends in a state whose
  \<open>final_output\<close> is the frame of the report around the task, the research result, the
  analysis result and the writing result, verbatim and in this order. Otherwise the run
  produces no report: it raises ValueError under the limit zero and GraphRecursionError
  in every other case.
\<close>

theorem final_report_contents:
  "(let r = research w t; a = analyze w r; wr = write' w (r @ nl @ nl @ a) in
    if limit = 0 then invoke w limit (initial_state t) = Inl ValueError
    else if r \<noteq> [] \<and> a \<noteq> [] \<and> wr \<noteq> [] \<and> 9 \<le> limit then
      \<exists>state. invoke w limit (initial_state t) = Inr state
        \<and> final_output state = Some
            (nl @ rule70 @ nl @ str ''FINAL REPORT'' @ nl @ rule70 @ nl @ nl
               @ str ''Task: '' @ t @ nl @ nl
               @ r @ nl @ nl
               @ a @ nl @ nl
               @ wr @ nl @ nl
               @ rule70 @ nl @ str ''Report complete.'' @ nl @ rule70 @ nl)
    else invoke w limit (initial_state t) = Inl GraphRecursionError)"
  by (simp add: invoke_initial_state Let_def state_at_fields report_def)

text \<open>
  The run on \<open>demo\<close> with workers that return \<open>R\<close>, \<open>A\<close> and \<open>W\<close>: the report holds
  \<open>demo\<close>, \<open>R\<close>, \<open>A\<close>, \<open>W\<close> in this order.
\<close>

theorem final_report_contents_witness:
  "\<exists>state p1 p2 p3 p4 p5.
     invoke (stub_agents (str ''R'') (str ''A'') (str ''W'')) default_recursion_limit
       (initial_state (str ''demo'')) = Inr state
     \<and> final_output state =
         Some (p1 @ str ''demo'' @ p2 @ str ''R'' @ p3 @ str ''A'' @ p4 @ str ''W'' @ p5)"
proof -
  from final_report_contents
    [of "stub_agents (str ''R'') (str ''A'') (str ''W'')" "str ''demo''" default_recursion_limit]
  obtain state where
    "invoke (stub_agents (str ''R'') (str ''A'') (str ''W'')) default_recursion_limit
      (initial_state (str ''demo'')) = Inr state"
    and "final_output state = Some
      ((nl @ rule70 @ nl @ str ''FINAL REPORT'' @ nl @ rule70 @ nl @ nl @ str ''Task: '')
         @ str ''demo'' @ (nl @ nl) @ str ''R'' @ (nl @ nl) @ str ''A'' @ (nl @ nl) @ str ''W''
         @ (nl @ nl @ rule70 @ nl @ str ''Report complete.'' @ nl @ rule70 @ nl))"
    by (auto simp: stub_agents_def Let_def str_Nil_iff default_recursion_limit_def)
  then show ?thesis
    by blast
qed

text \<open>
  C5. Any non-empty string in a result field counts as the step being complete, whatever
  it says: once it is stored in \<open>research_results\<close> the manager no longer selects
  \<open>research\<close>, and likewise for \<open>analysis_results\<close> and \<open>writing_results\<close>.
\<close>

theorem nonempty_result_counts_as_complete:
  assumes "s \<noteq> []" and "task state \<noteq> None" and "messages state \<noteq> None"
  shows "(\<exists>state'. manager_node (state\<lparr>research_results := Some s\<rparr>) = Inr state'
            \<and> next_agent state' \<noteq> Some (str ''research''))
    \<and> (\<exists>state'. manager_node (state\<lparr>analysis_results := Some s\<rparr>) = Inr state'
            \<and> next_agent state' \<noteq> Some (str ''analysis''))
    \<and> (\<exists>state'. manager_node (state\<lparr>writing_results := Some s\<rparr>) = Inr state'
            \<and> next_agent state' \<noteq> Some (str ''writing''))"
proof -
  from assms obtain task_v messages_v
    where "task state = Some task_v" and "messages state = Some messages_v"
    by auto
  with \<open>s \<noteq> []\<close> show ?thesis
    by (simp add: manager_node_present truthy_iff str_eq_iff)
qed

text \<open>An error message as the stored string, on the state built for the task \<open>demo\<close>.\<close>

theorem nonempty_result_counts_as_complete_witness:
  "(\<exists>state'. manager_node ((initial_state (str ''demo''))
        \<lparr>research_results := Some (str ''Error: search failed'')\<rparr>) = Inr state'
      \<and> next_agent state' \<noteq> Some (str ''research''))
   \<and> (\<exists>state'. manager_node ((initial_state (str ''demo''))
        \<lparr>analysis_results := Some (str ''Error: search failed'')\<rparr>) = Inr state'
      \<and> next_agent state' \<noteq> Some (str ''analysis''))
   \<and> (\<exists>state'. manager_node ((initial_state (str ''demo''))
        \<lparr>writing_results := Some (str ''Error: search failed'')\<rparr>) = Inr state'
      \<and> next_agent state' \<noteq> Some (str ''writing''))"
  using nonempty_result_counts_as_complete
    [of "str ''Error: search failed''" "initial_state (str ''demo'')"]
  by (simp add: initial_state_def str_Nil_iff)

text \<open>
  C6, as stated: the manager leaves the record unchanged. It does not: on the state built
  for the task \<open>demo\<close>, whose \<open>next_agent\<close> is \<open>manager\<close>, it returns a different state,
  with \<open>next_agent\<close> set to \<open>research\<close>.
\<close>

theorem manager_node_changes_record:
  "manager_node (initial_state (str ''demo'')) =
     Inr ((initial_state (str ''demo''))\<lparr>next_agent := Some (str ''research'')\<rparr>)
   \<and> (initial_state (str ''demo''))\<lparr>next_agent := Some (str ''research'')\<rparr>
       \<noteq> initial_state (str ''demo'')"
  by (simp add: manager_node_def subscript_def truthy_def initial_state_def str_eq_iff)

text \<open>
  C6, amended. The manager is idempotent: run on the state it returned, it returns that
  state again. It changes no field but \<open>next_agent\<close>, which it overwrites with the
  selected step, one of \<open>research\<close>, \<open>analysis\<close>, \<open>writing\<close> and \<open>finalize\<close>.
\<close>

theorem manager_node_idempotent:
  assumes "manager_node state = Inr state'"
  shows "manager_node state' = Inr state'
    \<and> state' = state\<lparr>next_agent := next_agent state'\<rparr>
    \<and> (\<exists>step \<in> {str ''research'', str ''analysis'', str ''writing'', str ''finalize''}.
          next_agent state' = Some step)"
proof -
  from manager_node_Inr_reads [OF assms] obtain task_v messages_v
    where reads: "task state = Some task_v" "messages state = Some messages_v"
    by blast
  define step where "step =
    (if \<not> truthy (research_results state) then str ''research''
     else if \<not> truthy (analysis_results state) then str ''analysis''
     else if \<not> truthy (writing_results state) then str ''writing''
     else str ''finalize'')"
  from assms reads have state': "state' = state\<lparr>next_agent := Some step\<rparr>"
    by (simp add: manager_node_present step_def)
  have again: "manager_node state' = Inr state'"
    using reads by (simp add: state' manager_node_present [of _ task_v messages_v] step_def)
  have "step \<in> {str ''research'', str ''analysis'', str ''writing'', str ''finalize''}"
    by (simp add: step_def)
  with again state' show ?thesis
    by simp
qed

theorem manager_node_idempotent_witness:
  "manager_node (initial_state (str ''demo'')) =
     Inr ((initial_state (str ''demo''))\<lparr>next_agent := Some (str ''research'')\<rparr>)
   \<and> manager_node ((initial_state (str ''demo''))\<lparr>next_agent := Some (str ''research'')\<rparr>) =
     Inr ((initial_state (str ''demo''))\<lparr>next_agent := Some (str ''research'')\<rparr>)"
proof -
  have first: "manager_node (initial_state (str ''demo'')) =
      Inr ((initial_state (str ''demo''))\<lparr>next_agent := Some (str ''research'')\<rparr>)"
    by (simp add: manager_node_def subscript_def truthy_def initial_state_def)
  from manager_node_idempotent [OF first] first show ?thesis
    by simp
qed

text \<open>
  C8. \<open>route_agent\<close> returns a value for every state: \<open>manager\<close> when the key
  \<open>next_agent\<close> is missing, the label itself for the five node names, and \<open>END\<close> for
  every other label, \<open>end\<close> included.
\<close>

theorem route_agent_total:
  "route_agent state =
    (case next_agent state of
       None \<Rightarrow> str ''manager''
     | Some label \<Rightarrow>
         if label \<in> {str ''manager'', str ''research'', str ''analysis'', str ''writing'',
                      str ''finalize''}
         then label else END)"
  by (auto simp: route_agent_def routing_def str_eq_iff split: option.splits)

theorem route_agent_total_witness:
  "route_agent ((initial_state (str ''demo''))\<lparr>next_agent := Some (str ''reviewer'')\<rparr>) = END
   \<and> route_agent ((initial_state (str ''demo''))\<lparr>next_agent := Some (str ''end'')\<rparr>) = END
   \<and> route_agent ((initial_state (str ''demo''))\<lparr>next_agent := None\<rparr>) = str ''manager''
   \<and> route_agent ((initial_state (str ''demo''))\<lparr>next_agent := Some (str ''writing'')\<rparr>)
       = str ''writing''"
  using route_agent_total [of "(initial_state (str ''demo''))\<lparr>next_agent := Some (str ''reviewer'')\<rparr>"]
    route_agent_total [of "(initial_state (str ''demo''))\<lparr>next_agent := Some (str ''end'')\<rparr>"]
    route_agent_total [of "(initial_state (str ''demo''))\<lparr>next_agent := None\<rparr>"]
    route_agent_total [of "(initial_state (str ''demo''))\<lparr>next_agent := Some (str ''writing'')\<rparr>"]
  by (simp add: str_eq_iff)

text \<open>
  C9. Each of the three worker nodes, where it returns, has set \<open>next_agent\<close> to
  \<open>manager\<close>, and \<open>finalize_node\<close> has set it to \<open>end\<close>; the edge out of each worker
  node leads to \<open>manager\<close> and the edge out of \<open>finalize\<close> to \<open>END\<close>. Each node
  returns where the keys it reads by subscript are present.
\<close>

theorem nodes_hand_control_back:
  "(\<forall>state'. research_node w state = Inr state' \<longrightarrow>
      next_agent state' = Some (str ''manager'') \<and> route_agent state' = str ''manager'')
   \<and> (\<forall>state'. analysis_node w state = Inr state' \<longrightarrow>
      next_agent state' = Some (str ''manager'') \<and> route_agent state' = str ''manager'')
   \<and> (\<forall>state'. writing_node w state = Inr state' \<longrightarrow>
      next_agent state' = Some (str ''manager'') \<and> route_agent state' = str ''manager'')
   \<and> (\<forall>state'. finalize_node state = Inr state' \<longrightarrow>
      next_agent state' = Some (str ''end'') \<and> route_agent state' = END)
   \<and> next_node (str ''research'') state = Inr (str ''manager'')
   \<and> next_node (str ''analysis'') state = Inr (str ''manager'')
   \<and> next_node (str ''writing'') state = Inr (str ''manager'')
   \<and> next_node (str ''finalize'') state = Inr END
   \<and> (task state \<noteq> None \<longrightarrow> (\<exists>state'. research_node w state = Inr state'))
   \<and> (research_results state \<noteq> None \<longrightarrow> (\<exists>state'. analysis_node w state = Inr state'))
   \<and> (research_results state \<noteq> None \<and> analysis_results state \<noteq> None \<longrightarrow>
        (\<exists>state'. writing_node w state = Inr state'))
   \<and> (task state \<noteq> None \<and> research_results state \<noteq> None \<and> analysis_results state \<noteq> None
        \<and> writing_results state \<noteq> None \<longrightarrow> (\<exists>state'. finalize_node state = Inr state'))"
proof -
  have research: "next_agent state' = Some (str ''manager'') \<and> route_agent state' = str ''manager''"
    if "research_node w state = Inr state'" for state'
    using that
    by (cases "task state")
      (auto simp: research_node_def subscript_def route_agent_def routing_def)
  have analysis: "next_agent state' = Some (str ''manager'') \<and> route_agent state' = str ''manager''"
    if "analysis_node w state = Inr state'" for state'
    using that
    by (cases "research_results state")
      (auto simp: analysis_node_def subscript_def route_agent_def routing_def)
  have writing: "next_agent state' = Some (str ''manager'') \<and> route_agent state' = str ''manager''"
    if "writing_node w state = Inr state'" for state'
    using that
    by (cases "research_results state"; cases "analysis_results state")
      (auto simp: writing_node_def subscript_def route_agent_def routing_def)
  have finalize: "next_agent state' = Some (str ''end'') \<and> route_agent state' = END"
    if "finalize_node state = Inr state'" for state'
    using that
    by (cases "task state"; cases "research_results state"; cases "analysis_results state";
        cases "writing_results state")
      (auto simp: finalize_node_def subscript_def route_agent_def routing_def str_eq_iff)
  have edges: "next_node (str ''research'') state = Inr (str ''manager'')"
    "next_node (str ''analysis'') state = Inr (str ''manager'')"
    "next_node (str ''writing'') state = Inr (str ''manager'')"
    "next_node (str ''finalize'') state = Inr END"
    by (simp_all add: next_node_def edges_def str_eq_iff)
  have returns:
    "task state \<noteq> None \<longrightarrow> (\<exists>state'. research_node w state = Inr state')"
    "research_results state \<noteq> None \<longrightarrow> (\<exists>state'. analysis_node w state = Inr state')"
    "research_results state \<noteq> None \<and> analysis_results state \<noteq> None \<longrightarrow>
      (\<exists>state'. writing_node w state = Inr state')"
    "task state \<noteq> None \<and> research_results state \<noteq> None \<and> analysis_results state \<noteq> None
      \<and> writing_results state \<noteq> None \<longrightarrow> (\<exists>state'. finalize_node state = Inr state')"
    by (auto simp: research_node_def analysis_node_def writing_node_def finalize_node_def
        subscript_def)
  from research analysis writing finalize edges returns show ?thesis
    by (intro conjI allI impI) blast+
qed

theorem nodes_hand_control_back_witness:
  "(\<exists>state'. research_node (stub_agents (str ''R'') (str ''A'') (str ''W''))
        (initial_state (str ''demo'')) = Inr state'
      \<and> next_agent state' = Some (str ''manager'') \<and> route_agent state' = str ''manager'')
   \<and> (\<exists>state'. finalize_node (initial_state (str ''demo'')) = Inr state'
      \<and> next_agent state' = Some (str ''end'') \<and> route_agent state' = END)"
  using nodes_hand_control_back
    [of "stub_agents (str ''R'') (str ''A'') (str ''W'')" "initial_state (str ''demo'')"]
  by (simp add: initial_state_def) blast

section \<open>The planning agent\<close>

text \<open>\<open>monitor_progress\<close> never raises: the division is reached only with a non-empty plan.\<close>

lemma monitor_progress_Inr:
  "monitor_progress fdiv fmul self =
    Inr \<lparr>total_steps = int (length (current_plan self)),
         completed_steps = int (length (execution_log self)),
         progress_percentage =
           (if current_plan self = [] then IntVal 0
            else FloatVal (fmul (fdiv (int (length (execution_log self)))
                                      (int (length (current_plan self)))) 100)),
         remaining_steps = int (length (current_plan self)) - int (length (execution_log self))\<rparr>"
  by (simp add: monitor_progress_def truediv_def Let_def)

text \<open>
  \<open>execute_step\<close> on a step that has its keys, and on one that lacks a key or whose
  description is an integer.
\<close>

lemma execute_step_ok:
  assumes "map_of step (str ''step_number'') = Some n"
    and "map_of step (str ''description'') = Some (PStr d)"
    and "map_of step (str ''estimated_complexity'') = Some c"
  shows "execute_step llm_invoke self step context =
    Inr ([(str ''step_number'', n),
          (str ''description'', PStr d),
          (str ''output'', PStr (fst (llm_invoke (llm self) (execution_prompt (PStr d) c context)))),
          (str ''status'', PStr (str ''completed'')),
          (str ''timestamp'', PStr (str ''now''))],
         self\<lparr>llm := snd (llm_invoke (llm self) (execution_prompt (PStr d) c context)),
              execution_log := execution_log self @
                [[(str ''step_number'', n),
                  (str ''description'', PStr d),
                  (str ''output'',
                   PStr (fst (llm_invoke (llm self) (execution_prompt (PStr d) c context)))),
                  (str ''status'', PStr (str ''completed'')),
                  (str ''timestamp'', PStr (str ''now''))]]\<rparr>)"
  using assms by (simp add: execute_step_def subscript_def Let_def case_prod_beta)

lemma execute_step_not_ok:
  assumes "\<not> step_ok step"
  shows "\<exists>e. execute_step llm_invoke self step context = Inl e"
proof (cases "map_of step (str ''step_number'')")
  case None
  then show ?thesis by (simp add: execute_step_def subscript_def)
next
  case n: (Some n)
  show ?thesis
  proof (cases "map_of step (str ''description'')")
    case None
    with n show ?thesis by (simp add: execute_step_def subscript_def)
  next
    case d: (Some d)
    show ?thesis
    proof (cases "map_of step (str ''estimated_complexity'')")
      case None
      with n d show ?thesis by (simp add: execute_step_def subscript_def)
    next
      case (Some c)
      with n d assms obtain i where "d = PInt i"
        by (cases d) (auto simp: step_ok_def)
      with n d Some show ?thesis
        by (simp add: execute_step_def subscript_def Let_def case_prod_beta)
    qed
  qed
qed

text \<open>One iteration of the loop of \<open>run\<close>.\<close>

lemma execute_plan_Cons_not_ok:
  assumes "\<not> step_ok step"
  shows "\<exists>e. execute_plan llm_invoke lower fdiv fmul (step # plan) (context, self, progress) = Inl e"
  using execute_step_not_ok [OF assms, of llm_invoke self "context"] by auto

lemma execute_plan_Cons_ok:
  assumes "map_of step (str ''step_number'') = Some n"
    and "map_of step (str ''description'') = Some (PStr d)"
    and "map_of step (str ''estimated_complexity'') = Some c"
  shows "execute_plan llm_invoke lower fdiv fmul (step # plan) (context, self, progress) =
    execute_plan llm_invoke lower fdiv fmul plan
      (context @ str ''Step '' @ format_val n @ str '': ''
         @ take 200 (fst (llm_invoke (llm self) (execution_prompt (PStr d) c context)))
         @ str ''...'' @ nl @ nl,
       self\<lparr>llm := snd (llm_invoke (llm self) (execution_prompt (PStr d) c context)),
            execution_log := execution_log self @
              [[(str ''step_number'', n),
                (str ''description'', PStr d),
                (str ''output'',
                 PStr (fst (llm_invoke (llm self) (execution_prompt (PStr d) c context)))),
                (str ''status'', PStr (str ''completed'')),
                (str ''timestamp'', PStr (str ''now''))]]\<rparr>,
       Some \<lparr>total_steps = int (length (current_plan self)),
             completed_steps = int (length (execution_log self)) + 1,
             progress_percentage =
               (if current_plan self = [] then IntVal 0
                else FloatVal (fmul (fdiv (int (length (execution_log self)) + 1)
                                          (int (length (current_plan self)))) 100)),
             remaining_steps =
               int (length (current_plan self)) - (int (length (execution_log self)) + 1)\<rparr>)"
  by (simp add: execute_step_ok [OF assms] assms(1) subscript_def monitor_progress_Inr
      should_replan_def str_eq_iff add.commute)


lemma execute_plan_returns:
  "(\<exists>final. execute_plan llm_invoke lower fdiv fmul plan (context, self, progress) = Inr final)
    \<longleftrightarrow> (\<forall>step \<in> set plan. step_ok step)"
proof (induction plan arbitrary: "context" self progress)
  case Nil
  show ?case by simp
next
  case (Cons step plan)
  show ?case
  proof (cases "step_ok step")
    case True
    then obtain n d c where keys: "map_of step (str ''step_number'') = Some n"
      "map_of step (str ''description'') = Some (PStr d)"
      "map_of step (str ''estimated_complexity'') = Some c"
      by (auto simp: step_ok_def)
    show ?thesis
      unfolding execute_plan_Cons_ok [OF keys] Cons.IH using True by simp
  next
    case False
    with execute_plan_Cons_not_ok [OF False, of llm_invoke lower fdiv fmul plan "context" self progress]
    show ?thesis by auto
  qed
qed

lemma execute_plan_log:
  assumes "execute_plan llm_invoke lower fdiv fmul plan (context, self, progress)
    = Inr (context', self', progress')"
  shows "\<exists>results. execution_log self' = execution_log self @ results
    \<and> map (\<lambda>result. (map_of result (str ''step_number''), map_of result (str ''description'')))
          results =
        map (\<lambda>step. (map_of step (str ''step_number''), map_of step (str ''description''))) plan
    \<and> current_plan self' = current_plan self"
  using assms
proof (induction plan arbitrary: "context" self progress)
  case Nil
  then show ?case by simp
next
  case (Cons step plan)
  show ?case
  proof (cases "step_ok step")
    case True
    then obtain n d c where keys: "map_of step (str ''step_number'') = Some n"
      "map_of step (str ''description'') = Some (PStr d)"
      "map_of step (str ''estimated_complexity'') = Some c"
      by (auto simp: step_ok_def)
    from Cons.prems [unfolded execute_plan_Cons_ok [OF keys]]
    obtain results where
      "execution_log self' =
        (execution_log self @
          [[(str ''step_number'', n),
            (str ''description'', PStr d),
            (str ''output'',
             PStr (fst (llm_invoke (llm self) (execution_prompt (PStr d) c context)))),
            (str ''status'', PStr (str ''completed'')),
            (str ''timestamp'', PStr (str ''now''))]]) @ results"
      and "map (\<lambda>result. (map_of result (str ''step_number''), map_of result (str ''description'')))
          results =
        map (\<lambda>step. (map_of step (str ''step_number''), map_of step (str ''description''))) plan"
      and "current_plan self' = current_plan self"
      using Cons.IH by fastforce
    then show ?thesis
      using keys by (simp add: str_eq_iff)
  next
    case False
    with execute_plan_Cons_not_ok [OF False, of llm_invoke lower fdiv fmul plan "context" self progress]
      Cons.prems
    show ?thesis by auto
  qed
qed


lemma execute_plan_progress:
  assumes "execute_plan llm_invoke lower fdiv fmul plan (context, self, progress)
    = Inr (context', self', progress')"
    and "plan \<noteq> [] \<or> progress \<noteq> None"
  shows "progress' \<noteq> None"
  using assms
proof (induction plan arbitrary: "context" self progress)
  case Nil
  then show ?case by simp
next
  case (Cons step plan)
  show ?case
  proof (cases "step_ok step")
    case True
    then obtain n d c where keys: "map_of step (str ''step_number'') = Some n"
      "map_of step (str ''description'') = Some (PStr d)"
      "map_of step (str ''estimated_complexity'') = Some c"
      by (auto simp: step_ok_def)
    from Cons.prems(1) [unfolded execute_plan_Cons_ok [OF keys]] show ?thesis
      by (rule Cons.IH) simp
  next
    case False
    with execute_plan_Cons_not_ok [OF False, of llm_invoke lower fdiv fmul plan "context" self progress]
      Cons.prems
    show ?thesis by auto
  qed
qed

lemma step_ok_fallback: "\<forall>step \<in> set (create_fallback_plan task_v). step_ok step"
  by (simp add: create_fallback_plan_def step_ok_def str_eq_iff)

lemma create_fallback_plan_length: "length (create_fallback_plan task_v) = 4"
  by (simp add: create_fallback_plan_def)

lemma print_plan_fallback: "print_plan (create_fallback_plan task_v) = Inr ()"
  by (simp add: create_fallback_plan_def subscript_def str_eq_iff)













section \<open>The claims about the planning example\<close>



text \<open>
  C10. \<open>monitor_progress\<close> returns a report for every agent: the number of steps of the
  current plan, the number of entries of the execution log, their difference as the
  remaining steps, and as the percentage the integer \<open>0\<close> when the plan has no step and
  the float \<open>completed / total * 100\<close> otherwise. The float operations are the parameters
  \<open>fdiv\<close> and \<open>fmul\<close>.
\<close>

theorem monitor_progress_total:
  "monitor_progress fdiv fmul self =
    Inr \<lparr>total_steps = int (length (current_plan self)),
         completed_steps = int (length (execution_log self)),
         progress_percentage =
           (if length (current_plan self) = 0 then IntVal 0
            else FloatVal (fmul (fdiv (int (length (execution_log self)))
                                      (int (length (current_plan self)))) 100)),
         remaining_steps = int (length (current_plan self)) - int (length (execution_log self))\<rparr>"
  by (simp add: monitor_progress_Inr)

text \<open>An agent with no plan, and one that has executed one of two steps (floats as exact fractions).\<close>

theorem monitor_progress_total_witness:
  "monitor_progress (\<lambda>a b. (a, b)) (\<lambda>q k. (fst q * k, snd q)) fresh_agent =
     Inr \<lparr>total_steps = 0, completed_steps = 0, progress_percentage = IntVal 0,
          remaining_steps = 0\<rparr>
   \<and> monitor_progress (\<lambda>a b. (a, b)) (\<lambda>q k. (fst q * k, snd q))
       (fresh_agent\<lparr>current_plan := example_plan, execution_log := [hd example_plan]\<rparr>) =
     Inr \<lparr>total_steps = 2, completed_steps = 1, progress_percentage = FloatVal (100, 2),
          remaining_steps = 1\<rparr>"
  using monitor_progress_total [of "\<lambda>a b. (a, b)" "\<lambda>q k. (fst q * k, snd q)" fresh_agent]
    monitor_progress_total [of "\<lambda>a b. (a, b)" "\<lambda>q k. (fst q * k, snd q)"
      "fresh_agent\<lparr>current_plan := example_plan, execution_log := [hd example_plan]\<rparr>"]
  by (simp add: fresh_agent_def example_plan_def)

section \<open>Further properties of the two examples\<close>

text \<open>
  The run of the graph finishes only because the module's agents never return the
  empty string. With a worker agent whose answer is empty, the manager selects the same
  worker again after every execution, and the run raises GraphRecursionError under every
  recursion limit but zero.
\<close>

theorem empty_worker_output_never_finishes:
  assumes "research w t = [] \<or> analyze w (research w t) = []
    \<or> write' w (research w t @ nl @ nl @ analyze w (research w t)) = []"
    and "0 < limit"
  shows "invoke w limit (initial_state t) = Inl GraphRecursionError"
  using assms by (auto simp: invoke_initial_state Let_def)

theorem empty_worker_output_never_finishes_witness:
  "invoke (stub_agents (str ''R'') [] (str ''W'')) 25 (initial_state (str ''demo''))
     = Inl GraphRecursionError
   \<and> invoke (stub_agents (str ''R'') (str ''A'') []) 1000 (initial_state (str ''demo''))
     = Inl GraphRecursionError"
  using empty_worker_output_never_finishes
      [of "stub_agents (str ''R'') [] (str ''W'')" "str ''demo''" 25]
    empty_worker_output_never_finishes
      [of "stub_agents (str ''R'') (str ''A'') []" "str ''demo''" 1000]
  by (simp add: stub_agents_def)

text \<open>
  When the plan is empty, \<open>run\<close> raises UnboundLocalError: its last \<open>print\<close> reads
  the local \<open>progress\<close>, which only an iteration of the loop assigns.
\<close>

theorem empty_plan_raises:
  assumes "fst (create_plan llm_invoke json_loads self task_v) = []"
  shows "run llm_invoke json_loads lower fdiv fmul self task_v = Inl UnboundLocalError"
proof -
  obtain self1 where "create_plan llm_invoke json_loads self task_v = ([], self1)"
    using assms by (cases "create_plan llm_invoke json_loads self task_v") simp
  then show ?thesis
    by (simp add: run_def monitor_progress_Inr)
qed

text \<open>A language model that answers with the empty JSON list, parsed as the empty plan.\<close>

theorem empty_plan_raises_witness:
  "run empty_list_llm (\<lambda>s. if s = str ''[]'' then Some [] else None) ascii_lower
     (\<lambda>a b. (a, b)) (\<lambda>q k. (fst q * k, snd q)) fresh_agent (str ''demo'')
   = Inl UnboundLocalError"
proof -
  have "fst (create_plan empty_list_llm (\<lambda>s. if s = str ''[]'' then Some [] else None)
      fresh_agent (str ''demo'')) = []"
    by (simp add: create_plan_def empty_list_llm_def fresh_agent_def py_rfind_def str_def Let_def)
  from empty_plan_raises [OF this] show ?thesis .
qed

text \<open>
  \<open>create_plan\<close> returns the fallback plan without storing it in \<open>current_plan\<close>.
  On an agent with no plan and an empty log whose plan cannot be parsed, \<open>run\<close>
  executes the four fallback steps and reports zero total steps, four completed steps,
  a percentage of \<open>0\<close> and \<open>-4\<close> remaining steps.
\<close>

theorem fallback_plan_not_stored:
  assumes "\<forall>s. json_loads s = None"
    and "current_plan self = []" and "execution_log self = []"
  shows "\<exists>final_result self'.
    run llm_invoke json_loads lower fdiv fmul self task_v = Inr (final_result, self')
    \<and> result_plan final_result = create_fallback_plan task_v
    \<and> current_plan self' = []
    \<and> length (execution_log self') = 4
    \<and> result_progress final_result =
        \<lparr>total_steps = 0, completed_steps = 4, progress_percentage = IntVal 0,
         remaining_steps = - 4\<rparr>"
proof -
  define self1 where "self1 = self\<lparr>llm := snd (llm_invoke (llm self) (planning_prompt task_v))\<rparr>"
  have self1: "current_plan self1 = []" "execution_log self1 = []"
    using assms(2,3) by (simp_all add: self1_def)
  have cp: "create_plan llm_invoke json_loads self task_v = (create_fallback_plan task_v, self1)"
    using assms(1) by (simp add: create_plan_def Let_def case_prod_beta self1_def)
  have "\<exists>final. execute_plan llm_invoke lower fdiv fmul (create_fallback_plan task_v)
      (str ''Task: '' @ task_v @ nl @ nl, self1, None) = Inr final"
    unfolding execute_plan_returns by (rule step_ok_fallback)
  then obtain final where "execute_plan llm_invoke lower fdiv fmul (create_fallback_plan task_v)
      (str ''Task: '' @ task_v @ nl @ nl, self1, None) = Inr final" ..
  then obtain context' self' progress' where
    ep: "execute_plan llm_invoke lower fdiv fmul (create_fallback_plan task_v)
      (str ''Task: '' @ task_v @ nl @ nl, self1, None) = Inr (context', self', progress')"
    by (cases final) simp
  from execute_plan_log [OF ep] obtain results where
    log: "execution_log self' = execution_log self1 @ results"
    and len: "map (\<lambda>result. (map_of result (str ''step_number''), map_of result (str ''description'')))
        results =
      map (\<lambda>step. (map_of step (str ''step_number''), map_of step (str ''description'')))
        (create_fallback_plan task_v)"
    and plan': "current_plan self' = current_plan self1"
    by blast
  from arg_cong [OF len, of length] have four: "length results = 4"
    by (simp add: create_fallback_plan_length)
  have "create_fallback_plan task_v \<noteq> []"
    using create_fallback_plan_length [of task_v] by auto
  then have "progress' \<noteq> None"
    using execute_plan_progress [OF ep] by blast
  then obtain p where p: "progress' = Some p"
    by (cases progress') simp_all
  have self': "current_plan self' = []" "length (execution_log self') = 4"
    using self1 log four plan' by simp_all
  have mp: "monitor_progress fdiv fmul self' =
      Inr \<lparr>total_steps = 0, completed_steps = 4, progress_percentage = IntVal 0,
           remaining_steps = - 4\<rparr>"
    unfolding monitor_progress_Inr using self' by simp
  have "run llm_invoke json_loads lower fdiv fmul self task_v =
      Inr (\<lparr>result_task = task_v, result_plan = create_fallback_plan task_v,
             result_execution_log = execution_log self',
             result_progress =
               \<lparr>total_steps = 0, completed_steps = 4, progress_percentage = IntVal 0,
                remaining_steps = - 4\<rparr>,
             result_status = str ''completed''\<rparr>, self')"
    unfolding run_def cp by (simp add: print_plan_fallback ep p mp)
  with self' show ?thesis
    by simp
qed

theorem fallback_plan_not_stored_witness:
  "\<exists>final_result self'.
    run failing_llm (\<lambda>s. None) ascii_lower (\<lambda>a b. (a, b)) (\<lambda>q k. (fst q * k, snd q))
      fresh_agent (str ''demo'') = Inr (final_result, self')
    \<and> result_progress final_result =
        \<lparr>total_steps = 0, completed_steps = 4, progress_percentage = IntVal 0,
         remaining_steps = - 4\<rparr>"
proof -
  have "\<forall>s. (\<lambda>s::pstr. None::pydict list option) s = None"
    "current_plan fresh_agent = []" "execution_log fresh_agent = []"
    by (simp_all add: fresh_agent_def)
  from fallback_plan_not_stored [OF this, of failing_llm ascii_lower
      "\<lambda>a b. (a, b)" "\<lambda>q k. (fst q * k, snd q)" "str ''demo''"]
  show ?thesis
    by blast
qed

end
